theory Spec2Isabelle
  imports Complex_Main "HOL-Library.Multiset" "HOL-Library.AList"
begin

section \<open>Domain model (types of the itinerary)\<close>

text \<open>
  A \<open>Date\<close> is modelled by its time value: the number of milliseconds since the epoch.
  Latitudes and longitudes are real numbers; the not-a-number and infinite values of a
  floating-point number are outside the model.
\<close>

type_synonym Date = int

record Location =
  lat :: real
  lng :: real
  address :: string

datatype ItemType = flight | accommodation | activity

datatype ActivityType = restaurant | tour | attraction | other

record BaseItem =
  id' :: string
  tripId :: string
  startDate :: Date
  endDate :: "Date option"
  notes' :: "string option"

record Flight = BaseItem +
  origin :: Location
  destination :: Location
  departureTime :: Date
  arrivalTime :: Date
  airline :: "string option"
  flightNumber :: "string option"
  confirmationNumber :: "string option"

record Accommodation = BaseItem +
  name :: string
  location :: Location
  checkIn :: Date
  checkOut :: Date
  bookingReference :: "string option"

record Activity = BaseItem +
  name :: string
  location :: Location
  activityType :: ActivityType
  time :: "string option"

text \<open>The union \<open>Flight | Accommodation | Activity\<close>; the constructor is the \<open>type\<close> tag.\<close>

datatype ItineraryItem =
  FlightItem Flight
| AccommodationItem Accommodation
| ActivityItem Activity

record Trip =
  id' :: string
  name :: string
  startDate :: Date
  endDate :: Date
  items :: "ItineraryItem list"
  createdAt :: Date
  updatedAt :: Date

fun itemType :: "ItineraryItem \<Rightarrow> ItemType" where
  "itemType (FlightItem f) = flight"
| "itemType (AccommodationItem a) = accommodation"
| "itemType (ActivityItem a) = activity"

text \<open>The shared field \<open>item.startDate\<close>, read through the union.\<close>

fun itemStartDate :: "ItineraryItem \<Rightarrow> Date" where
  "itemStartDate (FlightItem f) = BaseItem.startDate f"
| "itemStartDate (AccommodationItem a) = BaseItem.startDate a"
| "itemStartDate (ActivityItem a) = BaseItem.startDate a"

text \<open>\<open>Date.prototype.getTime\<close>: the time value of the date.\<close>

definition getTime :: "Date \<Rightarrow> int" where
  "getTime d = d"


section \<open>Derivation functions\<close>

definition filterItemsByType :: "ItineraryItem list \<Rightarrow> ItemType \<Rightarrow> ItineraryItem list" where
  "filterItemsByType its ty = filter (\<lambda>item. itemType item = ty) its"

definition getItemsByDateRange :: "ItineraryItem list \<Rightarrow> Date \<Rightarrow> Date \<Rightarrow> ItineraryItem list" where
  "getItemsByDateRange its start end' =
     filter (\<lambda>item. itemStartDate item \<ge> start \<and> itemStartDate item \<le> end') its"

subsection \<open>\<open>getAllLocations\<close>\<close>

text \<open>
  The body of the \<open>forEach\<close> callback: the array \<open>locations\<close> after the pushes made
  for one item.
\<close>

fun pushLocations :: "Location list \<Rightarrow> ItineraryItem \<Rightarrow> Location list" where
  "pushLocations locations (FlightItem f) = (locations @ [origin f]) @ [destination f]"
| "pushLocations locations (AccommodationItem a) = locations @ [Accommodation.location a]"
| "pushLocations locations (ActivityItem a) = locations @ [Activity.location a]"

definition getAllLocations :: "ItineraryItem list \<Rightarrow> Location list" where
  "getAllLocations its = foldl pushLocations [] its"

subsection \<open>\<open>calculateTripBounds\<close>\<close>

text \<open>
  The map library's \<open>LatLngBounds\<close>: a south-west and a north-east corner.
  \<open>extend\<close> (here \<open>extendBounds\<close>) moves each corner outwards so that the point is covered.
\<close>

record LatLngBounds =
  southWest :: "real \<times> real"
  northEast :: "real \<times> real"

definition newLatLngBounds :: "real \<times> real \<Rightarrow> real \<times> real \<Rightarrow> LatLngBounds" where
  "newLatLngBounds c1 c2 =
     \<lparr> southWest = (min (fst c1) (fst c2), min (snd c1) (snd c2)),
       northEast = (max (fst c1) (fst c2), max (snd c1) (snd c2)) \<rparr>"

definition extendBounds :: "LatLngBounds \<Rightarrow> real \<times> real \<Rightarrow> LatLngBounds" where
  "extendBounds b p =
     \<lparr> southWest = (min (fst p) (fst (southWest b)), min (snd p) (snd (southWest b))),
       northEast = (max (fst p) (fst (northEast b)), max (snd p) (snd (northEast b))) \<rparr>"

definition calculateTripBounds :: "ItineraryItem list \<Rightarrow> LatLngBounds option" where
  "calculateTripBounds its =
     (let locations = getAllLocations its in
      case locations of
        [] \<Rightarrow> None
      | l0 # _ \<Rightarrow>
          Some (foldl (\<lambda>bounds loc. extendBounds bounds (lat loc, lng loc))
                  (newLatLngBounds (lat l0, lng l0) (lat l0, lng l0)) locations))"

subsection \<open>\<open>getRouteLocations\<close>\<close>

text \<open>
  \<open>Array.prototype.sort\<close> with a comparison function is a stable sort: an element
  is placed before another when the comparison is negative, and elements that compare
  as zero keep their order. It is modelled by a stable insertion sort driven by the
  comparison function.
\<close>

fun insertBy :: "('a \<Rightarrow> 'a \<Rightarrow> int) \<Rightarrow> 'a \<Rightarrow> 'a list \<Rightarrow> 'a list" where
  "insertBy cmp x [] = [x]"
| "insertBy cmp x (y # ys) = (if cmp x y \<le> 0 then x # y # ys else y # insertBy cmp x ys)"

definition sortBy :: "('a \<Rightarrow> 'a \<Rightarrow> int) \<Rightarrow> 'a list \<Rightarrow> 'a list" where
  "sortBy cmp xs = foldr (insertBy cmp) xs []"

definition sortedItems :: "ItineraryItem list \<Rightarrow> ItineraryItem list" where
  "sortedItems its =
     sortBy (\<lambda>a b. getTime (itemStartDate a) - getTime (itemStartDate b)) its"

fun pushRoute :: "Location list \<Rightarrow> ItineraryItem \<Rightarrow> Location list" where
  "pushRoute route (FlightItem f) = (route @ [origin f]) @ [destination f]"
| "pushRoute route (ActivityItem a) = route @ [Activity.location a]"
| "pushRoute route (AccommodationItem a) = route"

definition getRouteLocations :: "ItineraryItem list \<Rightarrow> Location list" where
  "getRouteLocations its = foldl pushRoute [] (sortedItems its)"


section \<open>Timestamps\<close>

text \<open>
  The calendar of the platform's \<open>Date\<close>: days since the epoch, proleptic Gregorian
  years, and the text format \<open>YYYY-MM-DDTHH:mm:ss.sssZ\<close> written by \<open>toISOString\<close>
  (with a sign and six digits for years outside 0 to 9999).
\<close>

subsection \<open>Calendar arithmetic\<close>

definition msPerDay :: int where "msPerDay = 86400000"

definition Day :: "int \<Rightarrow> int" where "Day t = t div msPerDay"

definition TimeWithinDay :: "int \<Rightarrow> int" where "TimeWithinDay t = t mod msPerDay"

definition DaysInYear :: "int \<Rightarrow> int" where
  "DaysInYear y =
     (if y mod 4 \<noteq> 0 then 365 else if y mod 100 \<noteq> 0 then 366
      else if y mod 400 \<noteq> 0 then 365 else 366)"

definition DayFromYear :: "int \<Rightarrow> int" where
  "DayFromYear y =
     365 * (y - 1970) + (y - 1969) div 4 - (y - 1901) div 100 + (y - 1601) div 400"

definition InLeapYear :: "int \<Rightarrow> bool" where
  "InLeapYear y \<longleftrightarrow> DaysInYear y = 366"

text \<open>The day within the year on which month \<open>m\<close> (0 to 11) starts; 12 is the year's end.\<close>

definition monthStart :: "bool \<Rightarrow> nat \<Rightarrow> int" where
  "monthStart leap m =
     (let l = (if leap then 1 else 0) in
      [0, 31, 59 + l, 90 + l, 120 + l, 151 + l, 181 + l, 212 + l, 243 + l, 273 + l,
       304 + l, 334 + l, 365 + l] ! m)"

definition MonthFromDay :: "bool \<Rightarrow> int \<Rightarrow> nat" where
  "MonthFromDay leap dwy =
     (if dwy < monthStart leap 1 then 0 else if dwy < monthStart leap 2 then 1
      else if dwy < monthStart leap 3 then 2 else if dwy < monthStart leap 4 then 3
      else if dwy < monthStart leap 5 then 4 else if dwy < monthStart leap 6 then 5
      else if dwy < monthStart leap 7 then 6 else if dwy < monthStart leap 8 then 7
      else if dwy < monthStart leap 9 then 8 else if dwy < monthStart leap 10 then 9
      else if dwy < monthStart leap 11 then 10 else 11)"


lemma div_succ:
  fixes n k :: int
  assumes "1 < k"
  shows "(n + 1) div k = n div k + (if (n + 1) mod k = 0 then 1 else 0)"
proof -
  have r: "0 \<le> n mod k" "n mod k < k" using assms by simp_all
  have "(n + 1) div k = n div k + 1 div k + (n mod k + 1 mod k) div k"
    by (rule div_add1_eq)
  moreover have "1 div k = 0" "1 mod k = 1" using assms by simp_all
  ultimately have e: "(n + 1) div k = n div k + (n mod k + 1) div k" by simp
  show ?thesis
  proof (cases "n mod k = k - 1")
    case True
    then have "(n + 1) mod k = 0"
      by (metis add.commute diff_add_cancel mod_add_left_eq mod_self)
    with e True assms show ?thesis by simp
  next
    case False
    then have lt: "n mod k + 1 < k" using r by linarith
    then have d0: "(n mod k + 1) div k = 0" using r by (simp add: div_pos_pos_trivial)
    have "(n + 1) mod k = (n mod k + 1) mod k" by (simp add: mod_add_left_eq)
    also have "\<dots> = n mod k + 1" using lt r by (simp add: mod_pos_pos_trivial)
    finally have "(n + 1) mod k \<noteq> 0" using r by linarith
    with e d0 show ?thesis by simp
  qed
qed

lemma DayFromYear_Suc: "DayFromYear (y + 1) = DayFromYear y + DaysInYear y"
proof -
  have s4: "(y - 1969 + 1) mod 4 = y mod 4"
  proof -
    have "y - 1969 + 1 = y + (- 492) * 4" by simp
    then show ?thesis by (simp only: mod_mult_self1)
  qed
  have s100: "(y - 1901 + 1) mod 100 = y mod 100"
  proof -
    have "y - 1901 + 1 = y + (- 19) * 100" by simp
    then show ?thesis by (simp only: mod_mult_self1)
  qed
  have s400: "(y - 1601 + 1) mod 400 = y mod 400"
  proof -
    have "y - 1601 + 1 = y + (- 4) * 400" by simp
    then show ?thesis by (simp only: mod_mult_self1)
  qed
  have i1: "y mod 4 = 0" if "y mod 100 = 0"
  proof -
    have "(4::int) dvd 100" by simp
    then show ?thesis using that by (meson dvd_trans mod_eq_0_iff_dvd)
  qed
  have i2: "y mod 100 = 0" if "y mod 400 = 0"
  proof -
    have "(100::int) dvd 400" by simp
    then show ?thesis using that by (meson dvd_trans mod_eq_0_iff_dvd)
  qed
  define p where "p = (y - 1969) div 4"
  define q where "q = (y - 1901) div 100"
  define r where "r = (y - 1601) div 400"
  have "(y - 1969 + 1) div 4 = p + (if (y - 1969 + 1) mod 4 = 0 then 1 else 0)"
    unfolding p_def by (rule div_succ) simp
  then have a: "(y - 1968) div 4 = p + (if y mod 4 = 0 then 1 else 0)"
    unfolding s4 by simp
  have "(y - 1901 + 1) div 100 = q + (if (y - 1901 + 1) mod 100 = 0 then 1 else 0)"
    unfolding q_def by (rule div_succ) simp
  then have b: "(y - 1900) div 100 = q + (if y mod 100 = 0 then 1 else 0)"
    unfolding s100 by simp
  have "(y - 1601 + 1) div 400 = r + (if (y - 1601 + 1) mod 400 = 0 then 1 else 0)"
    unfolding r_def by (rule div_succ) simp
  then have c: "(y - 1600) div 400 = r + (if y mod 400 = 0 then 1 else 0)"
    unfolding s400 by simp
  have l: "DayFromYear (y + 1)
        = 365 * (y - 1969) + (y - 1968) div 4 - (y - 1900) div 100 + (y - 1600) div 400"
    by (simp add: DayFromYear_def)
  have r: "DayFromYear y = 365 * (y - 1970) + p - q + r"
    by (simp add: DayFromYear_def p_def q_def r_def)
  show ?thesis
    unfolding l r a b c DaysInYear_def using i1 i2 by (simp split: if_splits)
qed

lemma DaysInYear_ge: "365 \<le> DaysInYear y" "DaysInYear y \<le> 366"
  by (simp_all add: DaysInYear_def)

text \<open>
  The year of a day number: the one year \<open>y\<close> with
  \<open>DayFromYear y \<le> d < DayFromYear (y + 1)\<close>, found by stepping from an estimate.
\<close>

function yearSearch :: "int \<Rightarrow> int \<Rightarrow> int" where
  "yearSearch d y =
     (if d < DayFromYear y then yearSearch d (y - 1)
      else if DayFromYear (y + 1) \<le> d then yearSearch d (y + 1)
      else y)"
  by pat_completeness auto
termination
proof (relation "measure (\<lambda>(d, y). nat (DayFromYear y - d) + nat (d - DayFromYear (y + 1) + 1))")
  show "wf (measure (\<lambda>(d, y). nat (DayFromYear y - d) + nat (d - DayFromYear (y + 1) + 1)))"
    by simp
next
  fix d y :: int
  assume a: "d < DayFromYear y"
  have 1: "DayFromYear y = DayFromYear (y - 1) + DaysInYear (y - 1)"
    using DayFromYear_Suc [of "y - 1"] by simp
  have 2: "DayFromYear (y + 1) = DayFromYear y + DaysInYear y"
    by (rule DayFromYear_Suc)
  have "nat (DayFromYear (y - 1) - d) + nat (d - DayFromYear y + 1)
        < nat (DayFromYear y - d) + nat (d - DayFromYear (y + 1) + 1)"
    using a 1 2 DaysInYear_ge [of "y - 1"] DaysInYear_ge [of y] by linarith
  then show "((d, y - 1), (d, y))
      \<in> measure (\<lambda>(d, y). nat (DayFromYear y - d) + nat (d - DayFromYear (y + 1) + 1))"
    by simp
next
  fix d y :: int
  assume a: "\<not> d < DayFromYear y" "DayFromYear (y + 1) \<le> d"
  have 2: "DayFromYear (y + 1) = DayFromYear y + DaysInYear y"
    by (rule DayFromYear_Suc)
  have 3: "DayFromYear (y + 1 + 1) = DayFromYear (y + 1) + DaysInYear (y + 1)"
    by (rule DayFromYear_Suc)
  have "nat (DayFromYear (y + 1) - d) + nat (d - DayFromYear (y + 1 + 1) + 1)
        < nat (DayFromYear y - d) + nat (d - DayFromYear (y + 1) + 1)"
    using a 2 3 DaysInYear_ge [of "y + 1"] DaysInYear_ge [of y] by linarith
  then show "((d, y + 1), (d, y))
      \<in> measure (\<lambda>(d, y). nat (DayFromYear y - d) + nat (d - DayFromYear (y + 1) + 1))"
    by simp
qed

declare yearSearch.simps [simp del]

definition YearFromDay :: "int \<Rightarrow> int" where
  "YearFromDay d = yearSearch d (1970 + d div 365)"

definition MakeDay :: "int \<Rightarrow> nat \<Rightarrow> int \<Rightarrow> int" where
  "MakeDay y m dt = DayFromYear y + monthStart (InLeapYear y) m + dt - 1"

definition MakeTime :: "int \<Rightarrow> int \<Rightarrow> int \<Rightarrow> int \<Rightarrow> int" where
  "MakeTime h mi s ms = h * 3600000 + mi * 60000 + s * 1000 + ms"

definition MakeDate :: "int \<Rightarrow> int \<Rightarrow> int" where
  "MakeDate day tm = day * msPerDay + tm"

text \<open>A time value is valid within 100 000 000 days of the epoch.\<close>

definition validTimeValue :: "int \<Rightarrow> bool" where
  "validTimeValue t \<longleftrightarrow> \<bar>t\<bar> \<le> 8640000000000000"

definition TimeClip :: "int \<Rightarrow> int option" where
  "TimeClip t = (if validTimeValue t then Some t else None)"

subsection \<open>Decimal fields\<close>

definition digitChar :: "nat \<Rightarrow> char" where
  "digitChar n = char_of (48 + n)"

definition digitValue :: "char \<Rightarrow> nat" where
  "digitValue c = of_char c - 48"

definition isDigit :: "char \<Rightarrow> bool" where
  "isDigit c \<longleftrightarrow> 48 \<le> (of_char c :: nat) \<and> (of_char c :: nat) \<le> 57"

fun padDigits :: "nat \<Rightarrow> nat \<Rightarrow> string" where
  "padDigits 0 n = []"
| "padDigits (Suc w) n = padDigits w (n div 10) @ [digitChar (n mod 10)]"

definition readDigits :: "string \<Rightarrow> nat option" where
  "readDigits s =
     (if s \<noteq> [] \<and> list_all isDigit s
      then Some (foldl (\<lambda>a c. 10 * a + digitValue c) 0 s) else None)"

subsection \<open>The timestamp format\<close>

definition yearString :: "int \<Rightarrow> string" where
  "yearString y =
     (if 0 \<le> y \<and> y \<le> 9999 then padDigits 4 (nat y)
      else (if y < 0 then ''-'' else ''+'') @ padDigits 6 (nat \<bar>y\<bar>))"

definition toISOString :: "Date \<Rightarrow> string" where
  "toISOString t =
     (let d = Day t; tw = TimeWithinDay t; y = YearFromDay d;
          dwy = d - DayFromYear y;
          m = MonthFromDay (InLeapYear y) dwy;
          dt = dwy - monthStart (InLeapYear y) m + 1
      in yearString y @ ''-'' @ padDigits 2 (m + 1) @ ''-'' @ padDigits 2 (nat dt)
         @ ''T'' @ padDigits 2 (nat (tw div 3600000))
         @ '':'' @ padDigits 2 (nat (tw div 60000 mod 60))
         @ '':'' @ padDigits 2 (nat (tw div 1000 mod 60))
         @ ''.'' @ padDigits 3 (nat (tw mod 1000)) @ ''Z'')"

definition parseYear :: "string \<Rightarrow> (int \<times> string) option" where
  "parseYear s =
     (case s of
        [] \<Rightarrow> None
      | c # cs \<Rightarrow>
          if c = CHR ''+'' \<or> c = CHR ''-'' then
            (case readDigits (take 6 cs) of
               None \<Rightarrow> None
             | Some n \<Rightarrow>
                 if length cs < 6 \<or> (c = CHR ''-'' \<and> n = 0) then None
                 else Some (if c = CHR ''-'' then - int n else int n, drop 6 cs))
          else
            (case readDigits (take 4 s) of
               None \<Rightarrow> None
             | Some n \<Rightarrow> if length s < 4 then None else Some (int n, drop 4 s)))"

definition validFields :: "int \<Rightarrow> nat \<Rightarrow> nat \<Rightarrow> nat \<Rightarrow> nat \<Rightarrow> nat \<Rightarrow> nat \<Rightarrow> bool" where
  "validFields y mo dt h mi s ms \<longleftrightarrow>
     1 \<le> mo \<and> mo \<le> 12 \<and> 1 \<le> dt
     \<and> int dt \<le> monthStart (InLeapYear y) mo - monthStart (InLeapYear y) (mo - 1)
     \<and> ((h \<le> 23 \<and> mi \<le> 59 \<and> s \<le> 59) \<or> (h = 24 \<and> mi = 0 \<and> s = 0 \<and> ms = 0))"

definition parseDate :: "string \<Rightarrow> Date option" where
  "parseDate str =
     (case parseYear str of
        None \<Rightarrow> None
      | Some (y, r) \<Rightarrow>
          if length r = 20 \<and> r ! 0 = CHR ''-'' \<and> r ! 3 = CHR ''-'' \<and> r ! 6 = CHR ''T''
             \<and> r ! 9 = CHR '':'' \<and> r ! 12 = CHR '':'' \<and> r ! 15 = CHR ''.''
             \<and> r ! 19 = CHR ''Z''
          then
            Option.bind (readDigits (take 2 (drop 1 r))) (\<lambda>mo.
            Option.bind (readDigits (take 2 (drop 4 r))) (\<lambda>dt.
            Option.bind (readDigits (take 2 (drop 7 r))) (\<lambda>h.
            Option.bind (readDigits (take 2 (drop 10 r))) (\<lambda>mi.
            Option.bind (readDigits (take 2 (drop 13 r))) (\<lambda>s.
            Option.bind (readDigits (take 3 (drop 16 r))) (\<lambda>ms.
              if validFields y mo dt h mi s ms
              then TimeClip (MakeDate (MakeDay y (mo - 1) (int dt))
                               (MakeTime (int h) (int mi) (int s) (int ms)))
              else None))))))
          else None)"


section \<open>Grouping items by day\<close>

text \<open>
  Modelled from the spec: the calendar day of a timestamp, date only, in the zone of the
  items. It is the day number in the zone of the given offset (milliseconds east of UTC).
\<close>

definition calendarDay :: "int \<Rightarrow> Date \<Rightarrow> int" where
  "calendarDay zone d = Day (getTime d + zone)"

definition itemDay :: "int \<Rightarrow> ItineraryItem \<Rightarrow> int" where
  "itemDay zone item = calendarDay zone (itemStartDate item)"

text \<open>
  Modelled from the spec: \<open>groupItemsByDay\<close> is named in the repository's documentation
  but its source is not among the source files. The start timestamp of each item is
  truncated to its calendar day; the distinct days are sorted ascending; within a day
  the items are sorted by start time with a stable sort.
\<close>

definition groupByDay :: "int \<Rightarrow> ItineraryItem list \<Rightarrow> (int \<times> ItineraryItem list) list" where
  "groupByDay zone its =
     map (\<lambda>day. (day, sort_key itemStartDate (filter (\<lambda>item. itemDay zone item = day) its)))
       (sort (remdups (map (itemDay zone) its)))"


section \<open>Run-time values and their serialization\<close>

text \<open>
  The values the codec handles at run time. A number is a real (not-a-number, the
  infinities and negative zero are outside the model); a \<open>Date\<close> carries its time
  value, or \<open>None\<close> when it is an invalid date; an object is the list of its properties
  in their order.
\<close>

datatype jsval =
  JUndefined
| JNull
| JBool bool
| JNum real
| JStr string
| JDate "Date option"
| JArray "jsval list"
| JObject "(string \<times> jsval) list"

text \<open>Exceptions, by kind.\<close>

datatype js_error = SyntaxError | TypeError | RangeError | QuotaExceededError

text \<open>The property names of an array are its indices in decimal.\<close>

fun showNat :: "nat \<Rightarrow> string" where
  "showNat n = (if n < 10 then [digitChar n] else showNat (n div 10) @ [digitChar (n mod 10)])"

declare showNat.simps [simp del]

definition indexKeys :: "'a list \<Rightarrow> string list" where
  "indexKeys xs = map showNat [0..<length xs]"

text \<open>Results are evaluated from left to right; the first exception ends the evaluation.\<close>

fun sequenceE :: "('e + 'a) list \<Rightarrow> 'e + 'a list" where
  "sequenceE [] = Inr []"
| "sequenceE (r # rs) =
     (case r of
        Inl e \<Rightarrow> Inl e
      | Inr x \<Rightarrow> (case sequenceE rs of Inl e \<Rightarrow> Inl e | Inr xs \<Rightarrow> Inr (x # xs)))"

text \<open>
  \<open>Date.prototype.toJSON\<close>: the text of a valid date, null for an invalid one.
  \<open>JSON.stringify\<close> applies it to a \<open>Date\<close> before it calls the replacer.
\<close>

fun toJSON :: "jsval \<Rightarrow> jsval" where
  "toJSON (JDate None) = JNull"
| "toJSON (JDate (Some t)) = JStr (toISOString t)"
| "toJSON v = v"

text \<open>
  The replacer of \<open>serializeTrips\<close>: a \<open>Date\<close> becomes its \<open>toISOString\<close>, which
  throws a \<open>RangeError\<close> on an invalid date; any other value is returned as it is.
\<close>

definition replacer :: "string \<Rightarrow> jsval \<Rightarrow> js_error + jsval" where
  "replacer key value =
     (case value of
        JDate d \<Rightarrow> (case d of None \<Rightarrow> Inl RangeError | Some t \<Rightarrow> Inr (JStr (toISOString t)))
      | _ \<Rightarrow> Inr value)"

text \<open>
  The tree that \<open>JSON.stringify\<close> builds for a value: \<open>toJSON\<close>, then the replacer,
  then by the kind of the value. A property whose value is undefined is left out of an
  object and becomes null in an array.
\<close>

lemma replacer_toJSON_size:
  "replacer key (toJSON value) = Inr v \<Longrightarrow> size v \<le> size value"
  by (cases "value" rule: toJSON.cases) (auto simp add: replacer_def)

function SerializeJSONProperty :: "string \<Rightarrow> jsval \<Rightarrow> js_error + jsval option" where
  "SerializeJSONProperty key value =
     (case replacer key (toJSON value) of
        Inl e \<Rightarrow> Inl e
      | Inr v \<Rightarrow>
          (case v of
             JUndefined \<Rightarrow> Inr None
           | JArray xs \<Rightarrow>
               (case sequenceE (map (\<lambda>(k, x). SerializeJSONProperty k x) (zip (indexKeys xs) xs)) of
                  Inl e \<Rightarrow> Inl e
                | Inr ys \<Rightarrow>
                    Inr (Some (JArray (map (\<lambda>y. case y of None \<Rightarrow> JNull | Some j \<Rightarrow> j) ys))))
           | JObject kvs \<Rightarrow>
               (case sequenceE (map (\<lambda>(k, x). case SerializeJSONProperty k x of
                                                  Inl e \<Rightarrow> Inl e
                                                | Inr None \<Rightarrow> Inr []
                                                | Inr (Some j) \<Rightarrow> Inr [(k, j)]) kvs) of
                  Inl e \<Rightarrow> Inl e
                | Inr ps \<Rightarrow> Inr (Some (JObject (concat ps))))
           | JDate d \<Rightarrow> Inr (Some (JObject []))
           | _ \<Rightarrow> Inr (Some v)))"
  by pat_completeness auto
termination
proof (relation "measure (\<lambda>(k, v). size v)")
  show "wf (measure (\<lambda>(k, v). size v))" by simp
next
  fix key val v xs a k x
  assume h: "replacer key (toJSON val) = Inr v" "v = JArray xs"
            "a \<in> set (zip (indexKeys xs) xs)" "(k, x) = a"
  then have "x \<in> set xs" by (metis set_zip_rightD)
  then have "size x < size (JArray xs)"
    by (induction xs) auto
  then show "((k, x), (key, val)) \<in> measure (\<lambda>(k, v). size v)"
    using replacer_toJSON_size [OF h(1)] h(2) by simp
next
  fix key val v kvs a k x
  assume h: "replacer key (toJSON val) = Inr v" "v = JObject kvs"
            "a \<in> set kvs" "(k, x) = a"
  then have "(k, x) \<in> set kvs" by simp
  then have "size x < size (JObject kvs)"
    by (induction kvs) auto
  then show "((k, x), (key, val)) \<in> measure (\<lambda>(k, v). size v)"
    using replacer_toJSON_size [OF h(1)] h(2) by simp
qed

declare SerializeJSONProperty.simps [simp del]

text \<open>Sequencing of a step that may throw.\<close>

definition bindE :: "'e + 'a \<Rightarrow> ('a \<Rightarrow> 'e + 'b) \<Rightarrow> 'e + 'b" where
  "bindE r f = (case r of Inl e \<Rightarrow> Inl e | Inr x \<Rightarrow> f x)"

text \<open>
  The concrete syntax of JSON belongs to the platform: \<open>printJSON\<close> writes a tree as
  text, \<open>readJSON\<close> reads a text and gives \<open>None\<close> when it is not a JSON text. Both are
  parameters of the model. The empty text is never a JSON text.
\<close>

record JSONText =
  printJSON :: "jsval \<Rightarrow> string"
  readJSON :: "string \<Rightarrow> jsval option"

definition JSON_stringify :: "'a JSONText_scheme \<Rightarrow> jsval \<Rightarrow> js_error + string option" where
  "JSON_stringify P v =
     (case SerializeJSONProperty [] v of
        Inl e \<Rightarrow> Inl e
      | Inr None \<Rightarrow> Inr None
      | Inr (Some j) \<Rightarrow> Inr (Some (printJSON P j)))"

definition JSON_parse :: "'a JSONText_scheme \<Rightarrow> string \<Rightarrow> js_error + jsval" where
  "JSON_parse P text =
     (if text = [] then Inl SyntaxError
      else case readJSON P text of None \<Rightarrow> Inl SyntaxError | Some j \<Rightarrow> Inr j)"

text \<open>
  Reading the property \<open>k\<close> of a value, for the names the codec reads (none of them is
  an index or \<open>length\<close>): undefined and null throw a \<open>TypeError\<close>, an object gives the
  value of the property or undefined, any other value gives undefined.
\<close>

definition getProp :: "jsval \<Rightarrow> string \<Rightarrow> js_error + jsval" where
  "getProp v k =
     (case v of
        JUndefined \<Rightarrow> Inl TypeError
      | JNull \<Rightarrow> Inl TypeError
      | JObject kvs \<Rightarrow> Inr (case map_of kvs k of None \<Rightarrow> JUndefined | Some x \<Rightarrow> x)
      | _ \<Rightarrow> Inr JUndefined)"

text \<open>The properties copied by a spread \<open>{...v}\<close>.\<close>

definition ownProperties :: "jsval \<Rightarrow> (string \<times> jsval) list" where
  "ownProperties v =
     (case v of
        JObject kvs \<Rightarrow> kvs
      | JArray xs \<Rightarrow> zip (indexKeys xs) xs
      | JStr s \<Rightarrow> zip (indexKeys s) (map (\<lambda>c. JStr [c]) s)
      | _ \<Rightarrow> [])"

text \<open>
  A property written after the spread in an object literal: it replaces the value of a
  property of that name where it stands, or is added at the end.
\<close>

definition setProp :: "string \<Rightarrow> jsval \<Rightarrow> (string \<times> jsval) list \<Rightarrow> (string \<times> jsval) list" where
  "setProp k v props = AList.update k v props"

text \<open>The truth value of a value in a condition.\<close>

definition truthy :: "jsval \<Rightarrow> bool" where
  "truthy v =
     (case v of
        JUndefined \<Rightarrow> False
      | JNull \<Rightarrow> False
      | JBool b \<Rightarrow> b
      | JNum r \<Rightarrow> r \<noteq> 0
      | JStr s \<Rightarrow> s \<noteq> []
      | _ \<Rightarrow> True)"

text \<open>
  \<open>new Date(v)\<close>. Of the texts, the model reads the format that \<open>toISOString\<close>
  writes; other texts, which a platform may read in ways of its own, and arrays and
  objects, which a platform first converts to text, give an invalid date in the model.
\<close>

definition newDate :: "jsval \<Rightarrow> jsval" where
  "newDate v =
     JDate (case v of
              JStr s \<Rightarrow> parseDate s
            | JNum r \<Rightarrow> TimeClip (if 0 \<le> r then \<lfloor>r\<rfloor> else \<lceil>r\<rceil>)
            | JNull \<Rightarrow> Some 0
            | JBool b \<Rightarrow> Some (if b then 1 else 0)
            | JDate d \<Rightarrow> d
            | _ \<Rightarrow> None)"

text \<open>\<open>v.map(f)\<close>: a \<open>TypeError\<close> unless \<open>v\<close> is an array.\<close>

definition arrayMap :: "(jsval \<Rightarrow> js_error + jsval) \<Rightarrow> jsval \<Rightarrow> js_error + jsval" where
  "arrayMap f v =
     (case v of
        JArray xs \<Rightarrow> (case sequenceE (map f xs) of Inl e \<Rightarrow> Inl e | Inr ys \<Rightarrow> Inr (JArray ys))
      | _ \<Rightarrow> Inl TypeError)"

text \<open>The callback of the inner \<open>map\<close> of \<open>deserializeTrips\<close>, applied to one item.\<close>

definition reviveItem :: "jsval \<Rightarrow> js_error + jsval" where
  "reviveItem item =
     bindE (getProp item ''startDate'') (\<lambda>sd.
     bindE (getProp item ''endDate'') (\<lambda>ed.
       let baseItem =
             setProp ''endDate'' (if truthy ed then newDate ed else JUndefined)
               (setProp ''startDate'' (newDate sd) (ownProperties item))
       in
       bindE (getProp item ''type'') (\<lambda>ty.
         if ty = JStr ''flight'' then
           bindE (getProp item ''departureTime'') (\<lambda>dep.
           bindE (getProp item ''arrivalTime'') (\<lambda>arr.
             Inr (JObject (setProp ''arrivalTime'' (newDate arr)
                            (setProp ''departureTime'' (newDate dep) baseItem)))))
         else if ty = JStr ''accommodation'' then
           bindE (getProp item ''checkIn'') (\<lambda>cin.
           bindE (getProp item ''checkOut'') (\<lambda>cout.
             Inr (JObject (setProp ''checkOut'' (newDate cout)
                            (setProp ''checkIn'' (newDate cin) baseItem)))))
         else Inr (JObject baseItem))))"

text \<open>The callback of the outer \<open>map\<close> of \<open>deserializeTrips\<close>, applied to one trip.\<close>

definition reviveTrip :: "jsval \<Rightarrow> js_error + jsval" where
  "reviveTrip trip =
     bindE (getProp trip ''startDate'') (\<lambda>sd.
     bindE (getProp trip ''endDate'') (\<lambda>ed.
     bindE (getProp trip ''createdAt'') (\<lambda>ca.
     bindE (getProp trip ''updatedAt'') (\<lambda>ua.
     bindE (getProp trip ''items'') (\<lambda>its.
     bindE (arrayMap reviveItem its) (\<lambda>items'.
       Inr (JObject
             (setProp ''items'' items'
               (setProp ''updatedAt'' (newDate ua)
                 (setProp ''createdAt'' (newDate ca)
                   (setProp ''endDate'' (newDate ed)
                     (setProp ''startDate'' (newDate sd) (ownProperties trip)))))))))))))"

definition deserializeTrips :: "'a JSONText_scheme \<Rightarrow> string \<Rightarrow> js_error + jsval" where
  "deserializeTrips P data = bindE (JSON_parse P data) (arrayMap reviveTrip)"


section \<open>Persistence\<close>

subsection \<open>The key-value store and the console\<close>

text \<open>
  \<open>localStorage\<close>: keys with their texts, and a capacity in characters. \<open>setItem\<close>
  stores the text, or throws \<open>QuotaExceededError\<close> and leaves the store as it was.
\<close>

record Storage =
  entries :: "(string \<times> string) list"
  quota :: nat

definition storageSize :: "(string \<times> string) list \<Rightarrow> nat" where
  "storageSize kvs = sum_list (map (\<lambda>(k, v). length k + length v) kvs)"

definition getItem :: "Storage \<Rightarrow> string \<Rightarrow> string option" where
  "getItem st k = map_of (entries st) k"

definition setItem :: "Storage \<Rightarrow> string \<Rightarrow> string \<Rightarrow> js_error + Storage" where
  "setItem st k v =
     (let entries' = AList.update k v (entries st) in
      if storageSize entries' > quota st then Inl QuotaExceededError
      else Inr (st\<lparr>entries := entries'\<rparr>))"

definition removeItem :: "Storage \<Rightarrow> string \<Rightarrow> Storage" where
  "removeItem st k = st\<lparr>entries := AList.delete k (entries st)\<rparr>"

text \<open>What the persistence functions act on: the store, the console, the alerts shown.\<close>

record World =
  localStorage :: Storage
  console :: "(string \<times> js_error) list"
  alerts :: "string list"

definition consoleError :: "string \<Rightarrow> js_error \<Rightarrow> World \<Rightarrow> World" where
  "consoleError msg e w = w\<lparr>console := console w @ [(msg, e)]\<rparr>"

definition alert :: "string \<Rightarrow> World \<Rightarrow> World" where
  "alert msg w = w\<lparr>alerts := alerts w @ [msg]\<rparr>"

subsection \<open>Typed values at run time\<close>

text \<open>
  The object that represents a typed value at run time. The properties stand in one fixed
  order; an optional field that is absent is no property at all.
\<close>

definition locationVal :: "Location \<Rightarrow> jsval" where
  "locationVal l =
     JObject [(''lat'', JNum (lat l)), (''lng'', JNum (lng l)), (''address'', JStr (address l))]"

definition optional :: "string \<Rightarrow> ('a \<Rightarrow> jsval) \<Rightarrow> 'a option \<Rightarrow> (string \<times> jsval) list" where
  "optional k f x = (case x of None \<Rightarrow> [] | Some v \<Rightarrow> [(k, f v)])"

definition dateVal :: "Date \<Rightarrow> jsval" where
  "dateVal d = JDate (Some d)"

fun activityTypeVal :: "ActivityType \<Rightarrow> jsval" where
  "activityTypeVal restaurant = JStr ''restaurant''"
| "activityTypeVal tour = JStr ''tour''"
| "activityTypeVal attraction = JStr ''attraction''"
| "activityTypeVal other = JStr ''other''"

text \<open>
  The properties of an item other than \<open>endDate\<close>. The parameter \<open>dv\<close> is the
  representation of a timestamp: a \<open>Date\<close> object in memory, a string in the stored
  document.
\<close>

fun itemProps :: "(Date \<Rightarrow> jsval) \<Rightarrow> ItineraryItem \<Rightarrow> (string \<times> jsval) list" where
  "itemProps dv (FlightItem f) =
     [(''id'', JStr (BaseItem.id' f)), (''type'', JStr ''flight''),
      (''tripId'', JStr (tripId f)), (''startDate'', dv (BaseItem.startDate f)),
      (''origin'', locationVal (origin f)),
      (''destination'', locationVal (destination f)),
      (''departureTime'', dv (departureTime f)),
      (''arrivalTime'', dv (arrivalTime f))]
     @ optional ''notes'' JStr (notes' f)
     @ optional ''airline'' JStr (airline f)
     @ optional ''flightNumber'' JStr (flightNumber f)
     @ optional ''confirmationNumber'' JStr (confirmationNumber f)"
| "itemProps dv (AccommodationItem a) =
     [(''id'', JStr (BaseItem.id' a)), (''type'', JStr ''accommodation''),
      (''tripId'', JStr (tripId a)), (''startDate'', dv (BaseItem.startDate a)),
      (''name'', JStr (Accommodation.name a)),
      (''location'', locationVal (Accommodation.location a)),
      (''checkIn'', dv (checkIn a)),
      (''checkOut'', dv (checkOut a))]
     @ optional ''notes'' JStr (notes' a)
     @ optional ''bookingReference'' JStr (bookingReference a)"
| "itemProps dv (ActivityItem a) =
     [(''id'', JStr (BaseItem.id' a)), (''type'', JStr ''activity''),
      (''tripId'', JStr (tripId a)), (''startDate'', dv (BaseItem.startDate a)),
      (''name'', JStr (Activity.name a)),
      (''location'', locationVal (Activity.location a)),
      (''activityType'', activityTypeVal (activityType a))]
     @ optional ''notes'' JStr (notes' a)
     @ optional ''time'' JStr (time a)"

fun itemEndDate :: "ItineraryItem \<Rightarrow> Date option" where
  "itemEndDate (FlightItem f) = BaseItem.endDate f"
| "itemEndDate (AccommodationItem a) = BaseItem.endDate a"
| "itemEndDate (ActivityItem a) = BaseItem.endDate a"

definition itemRepr :: "(Date \<Rightarrow> jsval) \<Rightarrow> ItineraryItem \<Rightarrow> jsval" where
  "itemRepr dv item = JObject (itemProps dv item @ optional ''endDate'' dv (itemEndDate item))"

definition tripRepr :: "(Date \<Rightarrow> jsval) \<Rightarrow> (ItineraryItem \<Rightarrow> jsval) \<Rightarrow> Trip \<Rightarrow> jsval" where
  "tripRepr dv iv t =
     JObject [(''id'', JStr (Trip.id' t)), (''name'', JStr (Trip.name t)),
              (''startDate'', dv (Trip.startDate t)),
              (''endDate'', dv (Trip.endDate t)),
              (''items'', JArray (map iv (items t))),
              (''createdAt'', dv (createdAt t)),
              (''updatedAt'', dv (updatedAt t))]"

text \<open>The objects in memory: every timestamp is a \<open>Date\<close>.\<close>

definition itemVal :: "ItineraryItem \<Rightarrow> jsval" where
  "itemVal = itemRepr dateVal"

definition tripVal :: "Trip \<Rightarrow> jsval" where
  "tripVal = tripRepr dateVal itemVal"

definition tripsVal :: "Trip list \<Rightarrow> jsval" where
  "tripsVal ts = JArray (map tripVal ts)"

subsection \<open>The persistence functions\<close>

definition STORAGE_KEY :: string where
  "STORAGE_KEY = ''trip-visualizer-data''"

definition serializeTrips :: "'a JSONText_scheme \<Rightarrow> Trip list \<Rightarrow> js_error + string option" where
  "serializeTrips P trips = JSON_stringify P (tripsVal trips)"

text \<open>A value that is not a string is converted to one when it is stored.\<close>

definition storedText :: "string option \<Rightarrow> string" where
  "storedText s = (case s of None \<Rightarrow> ''undefined'' | Some text \<Rightarrow> text)"

text \<open>The body of the \<open>try\<close> block of \<open>saveTrips\<close>.\<close>

definition saveTripsBody :: "'a JSONText_scheme \<Rightarrow> Trip list \<Rightarrow> Storage \<Rightarrow> js_error + Storage" where
  "saveTripsBody P trips st =
     bindE (serializeTrips P trips) (\<lambda>serialized. setItem st STORAGE_KEY (storedText serialized))"

definition saveTrips :: "'a JSONText_scheme \<Rightarrow> Trip list \<Rightarrow> World \<Rightarrow> World" where
  "saveTrips P trips w =
     (case saveTripsBody P trips (localStorage w) of
        Inr st' \<Rightarrow> w\<lparr>localStorage := st'\<rparr>
      | Inl error \<Rightarrow>
          (let w' = consoleError ''Failed to save trips to localStorage:'' error w in
           if error = QuotaExceededError
           then alert ''Storage quota exceeded. Please delete some trips to free up space.'' w'
           else w'))"

text \<open>The body of the \<open>try\<close> block of \<open>loadTrips\<close>.\<close>

definition loadTripsBody :: "'a JSONText_scheme \<Rightarrow> Storage \<Rightarrow> js_error + jsval" where
  "loadTripsBody P st =
     (case getItem st STORAGE_KEY of
        None \<Rightarrow> Inr (JArray [])
      | Some data \<Rightarrow> if data = [] then Inr (JArray []) else deserializeTrips P data)"

text \<open>
  The result of \<open>loadTrips\<close> as its caller sees it: \<open>Inr\<close> a returned value, \<open>Inl\<close> an
  exception that escapes.
\<close>

definition loadTrips :: "'a JSONText_scheme \<Rightarrow> World \<Rightarrow> (js_error + jsval) \<times> World" where
  "loadTrips P w =
     (case loadTripsBody P (localStorage w) of
        Inr trips \<Rightarrow> (Inr trips, w)
      | Inl error \<Rightarrow>
          (Inr (JArray []), consoleError ''Failed to load trips from localStorage:'' error w))"

definition clearStorage :: "World \<Rightarrow> World" where
  "clearStorage w = w\<lparr>localStorage := removeItem (localStorage w) STORAGE_KEY\<rparr>"

text \<open>The condition \<open>if (tripId)\<close> holds for a string that is not empty.\<close>

definition saveCurrentTripId :: "string option \<Rightarrow> World \<Rightarrow> World" where
  "saveCurrentTripId currentId w =
     (case (case currentId of
              Some s \<Rightarrow>
                if s \<noteq> [] then setItem (localStorage w) ''current-trip-id'' s
                else Inr (removeItem (localStorage w) ''current-trip-id'')
            | None \<Rightarrow> Inr (removeItem (localStorage w) ''current-trip-id'')) of
        Inr st' \<Rightarrow> w\<lparr>localStorage := st'\<rparr>
      | Inl error \<Rightarrow> consoleError ''Failed to save current trip ID:'' error w)"

definition loadCurrentTripId :: "World \<Rightarrow> string option \<times> World" where
  "loadCurrentTripId w = (getItem (localStorage w) ''current-trip-id'', w)"


section \<open>The geocoding gateway\<close>

subsection \<open>Results of \<open>geocodeAddress\<close>\<close>

text \<open>
  A thrown value: an \<open>Error\<close> object with its message, or any other value.
\<close>

datatype thrown = ErrorObject string | NonError

text \<open>
  What \<open>fetch\<close> and \<open>response.json()\<close> give: the request is rejected with a thrown
  value, or a response arrives with its \<open>ok\<close> flag, its status text and a body that is
  JSON or is not (then reading it throws an error with a message).
\<close>

datatype response_body = NotJSON string | Body jsval

datatype fetch_result =
  Rejected thrown
| Responded bool string response_body

text \<open>
  Two things the platform decides: the number \<open>parseFloat\<close> reads, and the message of
  the \<open>TypeError\<close> thrown when a property of undefined or null is read.
\<close>

record Engine =
  parseFloat :: "jsval \<Rightarrow> jsval"
  cannotReadMessage :: string

text \<open>The white space that \<open>trim\<close> removes, among the characters of one byte.\<close>

definition isWhiteSpace :: "char \<Rightarrow> bool" where
  "isWhiteSpace c \<longleftrightarrow> (of_char c :: nat) \<in> {9, 10, 11, 12, 13, 32, 160}"

definition trim :: "string \<Rightarrow> string" where
  "trim s = rev (dropWhile isWhiteSpace (rev (dropWhile isWhiteSpace s)))"

text \<open>\<open>data.length\<close> and \<open>data[0]\<close> of a value that is not undefined or null.\<close>

definition lengthOf :: "jsval \<Rightarrow> jsval" where
  "lengthOf v =
     (case v of
        JArray xs \<Rightarrow> JNum (real (length xs))
      | JStr s \<Rightarrow> JNum (real (length s))
      | JObject kvs \<Rightarrow> (case map_of kvs ''length'' of None \<Rightarrow> JUndefined | Some x \<Rightarrow> x)
      | _ \<Rightarrow> JUndefined)"

definition firstElement :: "jsval \<Rightarrow> jsval" where
  "firstElement v =
     (case v of
        JArray xs \<Rightarrow> (case xs of [] \<Rightarrow> JUndefined | x # _ \<Rightarrow> x)
      | JStr s \<Rightarrow> (case s of [] \<Rightarrow> JUndefined | c # _ \<Rightarrow> JStr [c])
      | JObject kvs \<Rightarrow> (case map_of kvs ''0'' of None \<Rightarrow> JUndefined | Some x \<Rightarrow> x)
      | _ \<Rightarrow> JUndefined)"

definition readField :: "'a Engine_scheme \<Rightarrow> jsval \<Rightarrow> string \<Rightarrow> thrown + jsval" where
  "readField E v k =
     (case getProp v k of
        Inl e \<Rightarrow> Inl (ErrorObject (cannotReadMessage E))
      | Inr x \<Rightarrow> Inr x)"

text \<open>The body of the \<open>try\<close> block of \<open>geocodeAddress\<close>.\<close>

definition geocodeAttempt :: "'a Engine_scheme \<Rightarrow> fetch_result \<Rightarrow> thrown + jsval" where
  "geocodeAttempt E fetched =
     (case fetched of
        Rejected x \<Rightarrow> Inl x
      | Responded ok statusText body \<Rightarrow>
          if \<not> ok then Inl (ErrorObject (''Geocoding failed: '' @ statusText))
          else
            (case body of
               NotJSON m \<Rightarrow> Inl (ErrorObject m)
             | Body data \<Rightarrow>
                 if \<not> truthy data \<or> lengthOf data = JNum 0
                 then Inl (ErrorObject ''Address not found. Please try a different address format.'')
                 else
                   (let result = firstElement data in
                    bindE (readField E result ''lat'') (\<lambda>la.
                    bindE (readField E result ''lon'') (\<lambda>lo.
                    bindE (readField E result ''display_name'') (\<lambda>dn.
                      Inr (JObject [(''lat'', parseFloat E la), (''lng'', parseFloat E lo),
                                    (''address'', dn)])))))))"

definition geocodeAddress :: "'a Engine_scheme \<Rightarrow> string \<Rightarrow> fetch_result \<Rightarrow> thrown + jsval" where
  "geocodeAddress E addr fetched =
     (if addr = [] \<or> trim addr = [] then Inl (ErrorObject ''Address cannot be empty'')
      else
        (case geocodeAttempt E fetched of
           Inr loc \<Rightarrow> Inr loc
         | Inl error \<Rightarrow>
             (case error of
                ErrorObject message \<Rightarrow> Inl (ErrorObject (''Geocoding error: '' @ message))
              | NonError \<Rightarrow> Inl (ErrorObject ''Failed to geocode address''))))"

subsection \<open>Rate limiting\<close>

definition MIN_REQUEST_INTERVAL :: int where
  "MIN_REQUEST_INTERVAL = 1000"

text \<open>
  \<open>waitForRateLimit\<close> runs in two steps. The first step reads the clock and
  \<open>lastRequestTime\<close> and decides how long to sleep; the caller is suspended for that
  long, and other callers run meanwhile. The second step, on waking (or at once when no
  sleep is needed), stores the clock in \<open>lastRequestTime\<close>; the request of the caller
  follows at once and is recorded in \<open>requests\<close>. The clock is a parameter of each step.
\<close>

record Gateway =
  lastRequestTime :: int
  sleeping :: "int list"
  requests :: "int list"

definition sleepNeeded :: "int \<Rightarrow> int \<Rightarrow> int option" where
  "sleepNeeded lastRequest now =
     (let timeSinceLastRequest = now - lastRequest in
      if timeSinceLastRequest < MIN_REQUEST_INTERVAL
      then Some (MIN_REQUEST_INTERVAL - timeSinceLastRequest) else None)"

definition waitForRateLimit_resume :: "int \<Rightarrow> Gateway \<Rightarrow> Gateway" where
  "waitForRateLimit_resume now g = g\<lparr>lastRequestTime := now, requests := requests g @ [now]\<rparr>"

definition waitForRateLimit_enter :: "int \<Rightarrow> Gateway \<Rightarrow> Gateway" where
  "waitForRateLimit_enter now g =
     (case sleepNeeded (lastRequestTime g) now of
        None \<Rightarrow> waitForRateLimit_resume now g
      | Some delay \<Rightarrow> g\<lparr>sleeping := insort (now + delay) (sleeping g)\<rparr>)"

text \<open>
  The event loop: callers arrive at the given times (ascending); a sleeping caller wakes
  when its timer is due. Events are taken in the order of the clock, a due timer before an
  arrival at the same instant.
\<close>

function run :: "int list \<Rightarrow> Gateway \<Rightarrow> Gateway" where
  "run arrivals g =
     (case (sleeping g, arrivals) of
        ([], []) \<Rightarrow> g
      | (t # ts, []) \<Rightarrow> run [] (waitForRateLimit_resume t (g\<lparr>sleeping := ts\<rparr>))
      | ([], a # as) \<Rightarrow> run as (waitForRateLimit_enter a g)
      | (t # ts, a # as) \<Rightarrow>
          if t \<le> a then run (a # as) (waitForRateLimit_resume t (g\<lparr>sleeping := ts\<rparr>))
          else run as (waitForRateLimit_enter a g))"
  by pat_completeness auto
termination
proof (relation "measure (\<lambda>(arrivals, g). 2 * length arrivals + length (sleeping g))")
qed (auto simp add: waitForRateLimit_resume_def waitForRateLimit_enter_def
      split: option.splits dest: arg_cong [where f = length])

declare run.simps [simp del]


section \<open>Vocabulary of the specification\<close>

text \<open>What one item contributes to \<open>getAllLocations\<close> and to the route.\<close>

fun itemLocations :: "ItineraryItem \<Rightarrow> Location list" where
  "itemLocations (FlightItem f) = [origin f, destination f]"
| "itemLocations (AccommodationItem a) = [Accommodation.location a]"
| "itemLocations (ActivityItem a) = [Activity.location a]"

fun routeContribution :: "ItineraryItem \<Rightarrow> Location list" where
  "routeContribution (FlightItem f) = [origin f, destination f]"
| "routeContribution (ActivityItem a) = [Activity.location a]"
| "routeContribution (AccommodationItem a) = []"

definition countType :: "ItemType \<Rightarrow> ItineraryItem list \<Rightarrow> nat" where
  "countType ty its = length (filterItemsByType its ty)"

text \<open>A box covers a location; a box lies within another box.\<close>

definition covers :: "LatLngBounds \<Rightarrow> Location \<Rightarrow> bool" where
  "covers b l \<longleftrightarrow>
     fst (southWest b) \<le> lat l \<and> lat l \<le> fst (northEast b) \<and>
     snd (southWest b) \<le> lng l \<and> lng l \<le> snd (northEast b)"

definition liesWithin :: "LatLngBounds \<Rightarrow> LatLngBounds \<Rightarrow> bool" where
  "liesWithin b b' \<longleftrightarrow>
     fst (southWest b') \<le> fst (southWest b) \<and> fst (northEast b) \<le> fst (northEast b') \<and>
     snd (southWest b') \<le> snd (southWest b) \<and> snd (northEast b) \<le> snd (northEast b')"

definition degenerateBox :: "Location \<Rightarrow> LatLngBounds" where
  "degenerateBox l = \<lparr> southWest = (lat l, lng l), northEast = (lat l, lng l) \<rparr>"

subsection \<open>The scenario of the specification: trip "Japan 2024"\<close>

definition narita :: Location where
  "narita = \<lparr> lat = 35.7720, lng = 140.3929, address = ''Narita International Airport'' \<rparr>"

definition haneda :: Location where
  "haneda = \<lparr> lat = 35.5494, lng = 139.7798, address = ''Haneda Airport'' \<rparr>"

definition shibuya :: Location where
  "shibuya = \<lparr> lat = 35.6595, lng = 139.7005, address = ''Shibuya Crossing, Tokyo'' \<rparr>"

definition hotelLocation :: Location where
  "hotelLocation = \<lparr> lat = 35.6938, lng = 139.7034, address = ''Shinjuku, Tokyo'' \<rparr>"

text \<open>Departure 2024-04-01T08:00Z, arrival 2024-04-01T18:00Z.\<close>

definition exampleFlight :: Flight where
  "exampleFlight =
     \<lparr> BaseItem.id' = ''item-1'', tripId = ''trip-1'', BaseItem.startDate = 1711958400000,
       BaseItem.endDate = Some 1711994400000, notes' = None,
       origin = narita, destination = haneda,
       departureTime = 1711958400000, arrivalTime = 1711994400000,
       airline = Some ''ANA'', flightNumber = None, confirmationNumber = None \<rparr>"

text \<open>Check-in 2024-04-01T15:00Z, check-out 2024-04-10T02:00Z.\<close>

definition exampleHotel :: Accommodation where
  "exampleHotel =
     \<lparr> BaseItem.id' = ''item-2'', tripId = ''trip-1'', BaseItem.startDate = 1711983600000,
       BaseItem.endDate = None, notes' = Some ''late arrival'',
       Accommodation.name = ''Shinjuku Inn'', Accommodation.location = hotelLocation,
       checkIn = 1711983600000, checkOut = 1712714400000,
       bookingReference = None \<rparr>"

text \<open>Start 2024-04-02T10:00Z.\<close>

definition exampleActivity :: Activity where
  "exampleActivity =
     \<lparr> BaseItem.id' = ''item-3'', tripId = ''trip-1'', BaseItem.startDate = 1712052000000,
       BaseItem.endDate = None, notes' = None,
       Activity.name = ''Shibuya Crossing'', Activity.location = shibuya,
       activityType = attraction, time = Some ''10:00'' \<rparr>"

definition exampleItems :: "ItineraryItem list" where
  "exampleItems =
     [ActivityItem exampleActivity, AccommodationItem exampleHotel, FlightItem exampleFlight]"

subsection \<open>Persistence\<close>

text \<open>The store has room for the text \<open>v\<close> under the key \<open>k\<close>.\<close>

definition accepts :: "Storage \<Rightarrow> string \<Rightarrow> string \<Rightarrow> bool" where
  "accepts st k v \<longleftrightarrow> storageSize (AList.update k v (entries st)) \<le> quota st"

text \<open>A world with an empty store of the given capacity.\<close>

definition emptyWorld :: "nat \<Rightarrow> World" where
  "emptyWorld q = \<lparr> localStorage = \<lparr> entries = [], quota = q \<rparr>, console = [], alerts = [] \<rparr>"

text \<open>A store that holds an earlier copy and has no room for a longer one.\<close>

definition fullWorld :: World where
  "fullWorld =
     \<lparr> localStorage = \<lparr> entries = [(''trip-visualizer-data'', ''[]'')], quota = 22 \<rparr>,
       console = [], alerts = [] \<rparr>"

text \<open>A store whose text is not a document.\<close>

definition corruptWorld :: World where
  "corruptWorld =
     \<lparr> localStorage = \<lparr> entries = [(''trip-visualizer-data'', ''{not json'')], quota = 100 \<rparr>,
       console = [], alerts = [] \<rparr>"

text \<open>The stored document: every timestamp is its text.\<close>

definition isoVal :: "Date \<Rightarrow> jsval" where
  "isoVal d = JStr (toISOString d)"

definition tripsJson :: "Trip list \<Rightarrow> jsval" where
  "tripsJson ts = JArray (map (tripRepr isoVal (itemRepr isoVal)) ts)"

text \<open>
  What the codec rebuilds from the document: the objects in memory, with the
  property \<open>endDate\<close> of an item always present, undefined when the item has none.
\<close>

definition itemRevived :: "ItineraryItem \<Rightarrow> jsval" where
  "itemRevived item =
     JObject (itemProps dateVal item
              @ [(''endDate'', case itemEndDate item of None \<Rightarrow> JUndefined | Some d \<Rightarrow> dateVal d)])"

definition tripsRevived :: "Trip list \<Rightarrow> jsval" where
  "tripsRevived ts = JArray (map (tripRepr dateVal itemRevived) ts)"

text \<open>Every timestamp of a trip set is a valid date.\<close>

fun itemDatesValid :: "ItineraryItem \<Rightarrow> bool" where
  "itemDatesValid (FlightItem f) \<longleftrightarrow>
     validTimeValue (BaseItem.startDate f)
     \<and> (case BaseItem.endDate f of None \<Rightarrow> True | Some d \<Rightarrow> validTimeValue d)
     \<and> validTimeValue (departureTime f) \<and> validTimeValue (arrivalTime f)"
| "itemDatesValid (AccommodationItem a) \<longleftrightarrow>
     validTimeValue (BaseItem.startDate a)
     \<and> (case BaseItem.endDate a of None \<Rightarrow> True | Some d \<Rightarrow> validTimeValue d)
     \<and> validTimeValue (checkIn a) \<and> validTimeValue (checkOut a)"
| "itemDatesValid (ActivityItem a) \<longleftrightarrow>
     validTimeValue (BaseItem.startDate a)
     \<and> (case BaseItem.endDate a of None \<Rightarrow> True | Some d \<Rightarrow> validTimeValue d)"

definition tripDatesValid :: "Trip \<Rightarrow> bool" where
  "tripDatesValid t \<longleftrightarrow>
     validTimeValue (Trip.startDate t) \<and> validTimeValue (Trip.endDate t)
     \<and> validTimeValue (createdAt t) \<and> validTimeValue (updatedAt t)
     \<and> list_all itemDatesValid (items t)"

definition datesValid :: "Trip list \<Rightarrow> bool" where
  "datesValid ts = list_all tripDatesValid ts"

text \<open>Equality of values up to properties that are present but undefined.\<close>

fun dropUndefined :: "jsval \<Rightarrow> jsval" where
  "dropUndefined (JArray xs) = JArray (map dropUndefined xs)"
| "dropUndefined (JObject kvs) =
     JObject (concat (map (\<lambda>(k, v). if v = JUndefined then [] else [(k, dropUndefined v)]) kvs))"
| "dropUndefined v = v"

definition sameValue :: "jsval \<Rightarrow> jsval \<Rightarrow> bool" where
  "sameValue a b \<longleftrightarrow> dropUndefined a = dropUndefined b"

definition dropProps :: "(string \<times> jsval) list \<Rightarrow> (string \<times> jsval) list" where
  "dropProps kvs =
     concat (map (\<lambda>(k, v). if v = JUndefined then [] else [(k, dropUndefined v)]) kvs)"

text \<open>
  Reading a run-time value at a type of the domain model: a property that is absent or
  undefined is an absent optional field; the \<open>type\<close> tag selects the variant.
\<close>

definition field :: "(string \<times> jsval) list \<Rightarrow> string \<Rightarrow> jsval" where
  "field props k = (case map_of props k of None \<Rightarrow> JUndefined | Some v \<Rightarrow> v)"

fun asString :: "jsval \<Rightarrow> string option" where
  "asString (JStr s) = Some s"
| "asString v = None"

fun asNumber :: "jsval \<Rightarrow> real option" where
  "asNumber (JNum r) = Some r"
| "asNumber v = None"

fun asDate :: "jsval \<Rightarrow> Date option" where
  "asDate (JDate (Some t)) = Some t"
| "asDate v = None"

definition asOptional :: "(jsval \<Rightarrow> 'a option) \<Rightarrow> jsval \<Rightarrow> 'a option option" where
  "asOptional conv v = (if v = JUndefined then Some None else map_option Some (conv v))"

fun asLocation :: "jsval \<Rightarrow> Location option" where
  "asLocation (JObject props) =
     Option.bind (asNumber (field props ''lat'')) (\<lambda>la.
     Option.bind (asNumber (field props ''lng'')) (\<lambda>lo.
     Option.bind (asString (field props ''address'')) (\<lambda>ad.
       Some \<lparr> lat = la, lng = lo, address = ad \<rparr>)))"
| "asLocation v = None"

definition asActivityType :: "jsval \<Rightarrow> ActivityType option" where
  "asActivityType v =
     (if v = JStr ''restaurant'' then Some restaurant
      else if v = JStr ''tour'' then Some tour
      else if v = JStr ''attraction'' then Some attraction
      else if v = JStr ''other'' then Some other
      else None)"

definition asBaseItem :: "(string \<times> jsval) list \<Rightarrow> BaseItem option" where
  "asBaseItem props =
     Option.bind (asString (field props ''id'')) (\<lambda>i.
     Option.bind (asString (field props ''tripId'')) (\<lambda>t.
     Option.bind (asDate (field props ''startDate'')) (\<lambda>sd.
     Option.bind (asOptional asDate (field props ''endDate'')) (\<lambda>ed.
     Option.bind (asOptional asString (field props ''notes'')) (\<lambda>n.
       Some \<lparr> BaseItem.id' = i, tripId = t, BaseItem.startDate = sd, BaseItem.endDate = ed,
              notes' = n \<rparr>)))))"

definition asFlight :: "(string \<times> jsval) list \<Rightarrow> Flight option" where
  "asFlight props =
     Option.bind (asBaseItem props) (\<lambda>b.
     Option.bind (asLocation (field props ''origin'')) (\<lambda>og.
     Option.bind (asLocation (field props ''destination'')) (\<lambda>ds.
     Option.bind (asDate (field props ''departureTime'')) (\<lambda>dep.
     Option.bind (asDate (field props ''arrivalTime'')) (\<lambda>arr.
     Option.bind (asOptional asString (field props ''airline'')) (\<lambda>al.
     Option.bind (asOptional asString (field props ''flightNumber'')) (\<lambda>fn.
     Option.bind (asOptional asString (field props ''confirmationNumber'')) (\<lambda>cn.
       Some (BaseItem.extend b
               (Flight.fields og ds dep arr al fn cn))))))))))"

definition asAccommodation :: "(string \<times> jsval) list \<Rightarrow> Accommodation option" where
  "asAccommodation props =
     Option.bind (asBaseItem props) (\<lambda>b.
     Option.bind (asString (field props ''name'')) (\<lambda>nm.
     Option.bind (asLocation (field props ''location'')) (\<lambda>lc.
     Option.bind (asDate (field props ''checkIn'')) (\<lambda>cin.
     Option.bind (asDate (field props ''checkOut'')) (\<lambda>cout.
     Option.bind (asOptional asString (field props ''bookingReference'')) (\<lambda>br.
       Some (BaseItem.extend b (Accommodation.fields nm lc cin cout br))))))))"

definition asActivity :: "(string \<times> jsval) list \<Rightarrow> Activity option" where
  "asActivity props =
     Option.bind (asBaseItem props) (\<lambda>b.
     Option.bind (asString (field props ''name'')) (\<lambda>nm.
     Option.bind (asLocation (field props ''location'')) (\<lambda>lc.
     Option.bind (asActivityType (field props ''activityType'')) (\<lambda>ty.
     Option.bind (asOptional asString (field props ''time'')) (\<lambda>tm.
       Some (BaseItem.extend b (Activity.fields nm lc ty tm)))))))"

fun asItem :: "jsval \<Rightarrow> ItineraryItem option" where
  "asItem (JObject props) =
     (if field props ''type'' = JStr ''flight'' then map_option FlightItem (asFlight props)
      else if field props ''type'' = JStr ''accommodation''
        then map_option AccommodationItem (asAccommodation props)
      else if field props ''type'' = JStr ''activity''
        then map_option ActivityItem (asActivity props)
      else None)"
| "asItem v = None"

fun allSome :: "'a option list \<Rightarrow> 'a list option" where
  "allSome [] = Some []"
| "allSome (x # xs) =
     (case x of None \<Rightarrow> None
      | Some y \<Rightarrow> (case allSome xs of None \<Rightarrow> None | Some ys \<Rightarrow> Some (y # ys)))"

fun asList :: "(jsval \<Rightarrow> 'a option) \<Rightarrow> jsval \<Rightarrow> 'a list option" where
  "asList conv (JArray xs) = allSome (map conv xs)"
| "asList conv v = None"

fun asTrip :: "jsval \<Rightarrow> Trip option" where
  "asTrip (JObject props) =
     Option.bind (asString (field props ''id'')) (\<lambda>i.
     Option.bind (asString (field props ''name'')) (\<lambda>nm.
     Option.bind (asDate (field props ''startDate'')) (\<lambda>sd.
     Option.bind (asDate (field props ''endDate'')) (\<lambda>ed.
     Option.bind (asList asItem (field props ''items'')) (\<lambda>its.
     Option.bind (asDate (field props ''createdAt'')) (\<lambda>ca.
     Option.bind (asDate (field props ''updatedAt'')) (\<lambda>ua.
       Some \<lparr> Trip.id' = i, Trip.name = nm, Trip.startDate = sd, Trip.endDate = ed,
              items = its, createdAt = ca, updatedAt = ua \<rparr>)))))))"
| "asTrip v = None"

definition asTrips :: "jsval \<Rightarrow> Trip list option" where
  "asTrips v = asList asTrip v"

text \<open>One property of an object in the serialization.\<close>

definition serializeProperty :: "string \<times> jsval \<Rightarrow> js_error + (string \<times> jsval) list" where
  "serializeProperty p =
     (case p of (k, x) \<Rightarrow>
        (case SerializeJSONProperty k x of
           Inl e \<Rightarrow> Inl e
         | Inr None \<Rightarrow> Inr []
         | Inr (Some j) \<Rightarrow> Inr [(k, j)]))"

text \<open>The trip of the scenario, created 2024-03-01T12:00Z and updated 123 ms later.\<close>

definition exampleTrip :: Trip where
  "exampleTrip =
     \<lparr> Trip.id' = ''trip-1'', Trip.name = ''Japan 2024'',
       Trip.startDate = 1711929600000, Trip.endDate = 1712707200000,
       items = [FlightItem exampleFlight, AccommodationItem exampleHotel,
                ActivityItem exampleActivity],
       createdAt = 1709294400000, updatedAt = 1709294400123 \<rparr>"

text \<open>
  A text codec that knows one document: it prints every tree as the same text and reads
  that text back as the document of the example trip.
\<close>

definition exampleCodec :: JSONText where
  "exampleCodec =
     \<lparr> printJSON = (\<lambda>j. ''[trips]''),
       readJSON = (\<lambda>s. if s = ''[trips]'' then Some (tripsJson [exampleTrip]) else None) \<rparr>"


subsection \<open>Geocoding\<close>

text \<open>An address of white space only; the empty address is one.\<close>

definition blank :: "string \<Rightarrow> bool" where
  "blank s \<longleftrightarrow> list_all isWhiteSpace s"

text \<open>An engine for the examples; its \<open>parseFloat\<close> returns its argument.\<close>

definition exampleEngine :: Engine where
  "exampleEngine =
     \<lparr> parseFloat = (\<lambda>v. v), cannotReadMessage = ''Cannot read properties of undefined'' \<rparr>"

text \<open>The three errors of \<open>geocodeAddress\<close>.\<close>

definition emptyAddressError :: thrown where
  "emptyAddressError = ErrorObject ''Address cannot be empty''"

definition notFoundError :: thrown where
  "notFoundError =
     ErrorObject ''Geocoding error: Address not found. Please try a different address format.''"

definition transportError :: "string \<Rightarrow> thrown" where
  "transportError detail = ErrorObject (''Geocoding error: '' @ detail)"

text \<open>The gateway when the module is loaded.\<close>

definition idle :: Gateway where
  "idle = \<lparr> lastRequestTime = 0, sleeping = [], requests = [] \<rparr>"

text \<open>Each request comes at least the minimum interval after the one before it.\<close>

fun spaced :: "int list \<Rightarrow> bool" where
  "spaced (t # u # ts) \<longleftrightarrow> u - t \<ge> MIN_REQUEST_INTERVAL \<and> spaced (u # ts)"
| "spaced ts \<longleftrightarrow> True"

text \<open>Callers one after the other: each call runs to its request before the next begins.\<close>

definition sequentially :: "int list \<Rightarrow> Gateway \<Rightarrow> Gateway" where
  "sequentially arrivals g = foldl (\<lambda>g now. run [now] g) g arrivals"

text \<open>
  No caller sleeps, the requests made so far are spaced, and \<open>lastRequestTime\<close> is the
  time of the latest of them.
\<close>

definition settled :: "Gateway \<Rightarrow> bool" where
  "settled g \<longleftrightarrow>
     sleeping g = [] \<and> spaced (requests g)
     \<and> (requests g = [] \<or> last (requests g) = lastRequestTime g)"


section \<open>Properties of the derivation functions\<close>

subsection \<open>\<open>getAllLocations\<close>\<close>

lemma foldl_pushLocations:
  "foldl pushLocations acc its = acc @ concat (map itemLocations its)"
proof (induction its arbitrary: acc)
  case Nil
  show ?case by simp
next
  case (Cons item its)
  show ?case by (cases item) (simp_all add: Cons.IH)
qed

lemma getAllLocations_concat:
  "getAllLocations its = concat (map itemLocations its)"
  by (simp add: getAllLocations_def foldl_pushLocations)

lemma length_concat_itemLocations:
  "length (concat (map itemLocations its))
     = 2 * countType flight its + countType accommodation its + countType activity its"
proof (induction its)
  case Nil
  show ?case by (simp add: countType_def filterItemsByType_def)
next
  case (Cons item its)
  then show ?case
    by (cases item) (simp_all add: countType_def filterItemsByType_def)
qed

text \<open>
  C6. \<open>getAllLocations\<close> yields, in the order of the input items, the origin then the
  destination of each flight and the one location of each accommodation and activity;
  its length is twice the number of flights plus the number of accommodations plus the
  number of activities.
\<close>

theorem getAllLocations_spec:
  "getAllLocations its = concat (map itemLocations its)
   \<and> length (getAllLocations its)
       = 2 * countType flight its + countType accommodation its + countType activity its"
  by (simp add: getAllLocations_concat length_concat_itemLocations)

subsection \<open>\<open>calculateTripBounds\<close>\<close>

lemma Min_insert_min:
  "finite (S::real set) \<Longrightarrow> Min (insert (min x y) S) = Min (insert y (insert x S))"
  by (cases "S = {}") (simp_all add: min.commute min.left_commute min.assoc)

lemma Max_insert_max:
  "finite (S::real set) \<Longrightarrow> Max (insert (max x y) S) = Max (insert y (insert x S))"
  by (cases "S = {}") (simp_all add: max.commute max.left_commute max.assoc)

lemma foldl_extend:
  "foldl (\<lambda>bounds loc. extendBounds bounds (lat loc, lng loc)) b locs =
     \<lparr> southWest = (Min (insert (fst (southWest b)) (set (map lat locs))),
                     Min (insert (snd (southWest b)) (set (map lng locs)))),
       northEast = (Max (insert (fst (northEast b)) (set (map lat locs))),
                     Max (insert (snd (northEast b)) (set (map lng locs)))) \<rparr>"
proof (induction locs arbitrary: b)
  case Nil
  show ?case by simp
next
  case (Cons l locs)
  have "foldl (\<lambda>bounds loc. extendBounds bounds (lat loc, lng loc)) b (l # locs)
        = foldl (\<lambda>bounds loc. extendBounds bounds (lat loc, lng loc)) (extendBounds b (lat l, lng l)) locs"
    by simp
  also have "\<dots> =
     \<lparr> southWest = (Min (insert (min (lat l) (fst (southWest b))) (set (map lat locs))),
                     Min (insert (min (lng l) (snd (southWest b))) (set (map lng locs)))),
       northEast = (Max (insert (max (lat l) (fst (northEast b))) (set (map lat locs))),
                     Max (insert (max (lng l) (snd (northEast b))) (set (map lng locs)))) \<rparr>"
    unfolding Cons.IH by (simp add: extendBounds_def)
  finally show ?case
    by (simp add: Min_insert_min Max_insert_max del: Min_insert Max_insert)
qed

lemma calculateTripBounds_Cons:
  assumes "getAllLocations its = l0 # ls"
  shows "calculateTripBounds its =
     Some \<lparr> southWest = (Min (set (map lat (l0 # ls))), Min (set (map lng (l0 # ls)))),
            northEast = (Max (set (map lat (l0 # ls))), Max (set (map lng (l0 # ls)))) \<rparr>"
proof -
  have "calculateTripBounds its =
     Some (foldl (\<lambda>bounds loc. extendBounds bounds (lat loc, lng loc))
                  (newLatLngBounds (lat l0, lng l0) (lat l0, lng l0)) (l0 # ls))"
    using assms by (simp add: calculateTripBounds_def)
  then show ?thesis
    unfolding foldl_extend by (simp add: newLatLngBounds_def)
qed

text \<open>
  C7. \<open>calculateTripBounds\<close> is absent exactly when \<open>getAllLocations\<close> is empty. Otherwise
  its box covers every yielded location and lies within every box that covers them all
  (it is the minimal rectangle); for a collection yielding the single location \<open>L\<close> it
  is the degenerate box with both corners at \<open>L\<close>.
\<close>

theorem calculateTripBounds_spec:
  "(calculateTripBounds its = None \<longleftrightarrow> getAllLocations its = [])
   \<and> (\<forall>b. calculateTripBounds its = Some b \<longrightarrow>
          (\<forall>l \<in> set (getAllLocations its). covers b l)
        \<and> (\<forall>b'. (\<forall>l \<in> set (getAllLocations its). covers b' l) \<longrightarrow> liesWithin b b'))
   \<and> (\<forall>L. getAllLocations its = [L] \<longrightarrow> calculateTripBounds its = Some (degenerateBox L))"
proof (cases "getAllLocations its")
  case Nil
  then show ?thesis by (simp add: calculateTripBounds_def)
next
  case (Cons l0 ls)
  let ?locs = "l0 # ls"
  have fin: "finite (set (map lat ?locs))" "finite (set (map lng ?locs))" by simp_all
  have ne: "set (map lat ?locs) \<noteq> {}" "set (map lng ?locs) \<noteq> {}" by simp_all
  have cov: "covers \<lparr> southWest = (Min (set (map lat ?locs)), Min (set (map lng ?locs))),
            northEast = (Max (set (map lat ?locs)), Max (set (map lng ?locs))) \<rparr> l"
    if "l \<in> set ?locs" for l
  proof -
    have "lat l \<in> set (map lat ?locs)" "lng l \<in> set (map lng ?locs)"
      using that by auto
    then show ?thesis
      unfolding covers_def using fin by (simp del: set_map list.map set_simps Min_insert Max_insert)
  qed
  have minimal: "liesWithin \<lparr> southWest = (Min (set (map lat ?locs)), Min (set (map lng ?locs))),
            northEast = (Max (set (map lat ?locs)), Max (set (map lng ?locs))) \<rparr> b'"
    if h: "\<forall>l \<in> set ?locs. covers b' l" for b'
  proof -
    have "\<forall>x \<in> set (map lat ?locs). fst (southWest b') \<le> x \<and> x \<le> fst (northEast b')"
      using h unfolding covers_def by auto
    moreover have "\<forall>x \<in> set (map lng ?locs). snd (southWest b') \<le> x \<and> x \<le> snd (northEast b')"
      using h unfolding covers_def by auto
    ultimately show ?thesis
      unfolding liesWithin_def using fin ne
      by (simp del: set_map list.map set_simps Min_insert Max_insert)
  qed
  show ?thesis
    using cov minimal
    by (simp add: calculateTripBounds_Cons [OF Cons] Cons degenerateBox_def del: Min_insert Max_insert)
qed

theorem calculateTripBounds_spec_witness:
  "getAllLocations [ActivityItem exampleActivity] = [shibuya]
   \<and> calculateTripBounds [ActivityItem exampleActivity] = Some (degenerateBox shibuya)
   \<and> covers (degenerateBox shibuya) shibuya"
proof -
  have g: "getAllLocations [ActivityItem exampleActivity] = [shibuya]"
    by (simp add: getAllLocations_def exampleActivity_def)
  have b: "calculateTripBounds [ActivityItem exampleActivity] = Some (degenerateBox shibuya)"
    using calculateTripBounds_spec [of "[ActivityItem exampleActivity]"] g by simp
  have "covers (degenerateBox shibuya) shibuya"
    using calculateTripBounds_spec [of "[ActivityItem exampleActivity]"] g b by simp
  with g b show ?thesis by simp
qed

subsection \<open>\<open>getRouteLocations\<close>\<close>

lemma insertBy_insort_key:
  "insertBy (\<lambda>a b. getTime (f a) - getTime (f b)) x xs = insort_key f x xs"
  by (induction xs) (simp_all add: getTime_def)

lemma sortBy_sort_key:
  "sortBy (\<lambda>a b. getTime (f a) - getTime (f b)) xs = sort_key f xs"
  by (induction xs) (simp_all add: sortBy_def insertBy_insort_key)

lemma sortedItems_sort_key: "sortedItems its = sort_key itemStartDate its"
  by (simp add: sortedItems_def sortBy_sort_key)

lemma foldl_pushRoute:
  "foldl pushRoute acc its = acc @ concat (map routeContribution its)"
proof (induction its arbitrary: acc)
  case Nil
  show ?case by simp
next
  case (Cons item its)
  show ?case by (cases item) (simp_all add: Cons.IH)
qed

lemma concat_routeContribution_filter:
  "concat (map routeContribution (filter (\<lambda>i. itemType i \<noteq> accommodation) its))
     = concat (map routeContribution its)"
proof (induction its)
  case Nil
  show ?case by simp
next
  case (Cons item its)
  then show ?case by (cases item) simp_all
qed

lemma length_concat_routeContribution:
  "length (concat (map routeContribution its)) = 2 * countType flight its + countType activity its"
proof (induction its)
  case Nil
  show ?case by (simp add: countType_def filterItemsByType_def)
next
  case (Cons item its)
  then show ?case
    by (cases item) (simp_all add: countType_def filterItemsByType_def)
qed

lemma countType_sort_key: "countType ty (sort_key f its) = countType ty its"
  by (simp add: countType_def filterItemsByType_def filter_sort)

text \<open>
  C4. \<open>getRouteLocations\<close> sorts the items ascending by start timestamp (the sorted list
  is a rearrangement of the input, ascending, and items with equal start keep their
  input order), then concatenates the contribution of each sorted item: origin then
  destination for a flight, the location for an activity, nothing for an accommodation.
  So removing the accommodations from the input does not change the route, and the
  length of the route is twice the number of flights plus the number of activities.
\<close>

theorem getRouteLocations_spec:
  "sorted (map itemStartDate (sortedItems its))
   \<and> mset (sortedItems its) = mset its
   \<and> (\<forall>t. filter (\<lambda>i. itemStartDate i = t) (sortedItems its)
            = filter (\<lambda>i. itemStartDate i = t) its)
   \<and> getRouteLocations its = concat (map routeContribution (sortedItems its))
   \<and> getRouteLocations its
        = getRouteLocations (filter (\<lambda>i. itemType i \<noteq> accommodation) its)
   \<and> length (getRouteLocations its) = 2 * countType flight its + countType activity its"
proof -
  have route: "getRouteLocations xs = concat (map routeContribution (sort_key itemStartDate xs))" for xs
    by (simp add: getRouteLocations_def foldl_pushRoute sortedItems_sort_key)
  have "getRouteLocations (filter (\<lambda>i. itemType i \<noteq> accommodation) its)
        = concat (map routeContribution
            (filter (\<lambda>i. itemType i \<noteq> accommodation) (sort_key itemStartDate its)))"
    by (simp add: route filter_sort)
  then have excl: "getRouteLocations its
        = getRouteLocations (filter (\<lambda>i. itemType i \<noteq> accommodation) its)"
    by (simp add: route concat_routeContribution_filter)
  have len: "length (getRouteLocations its) = 2 * countType flight its + countType activity its"
    by (simp add: route length_concat_routeContribution countType_sort_key)
  have stable: "filter (\<lambda>i. itemStartDate i = t) (sort_key itemStartDate its)
            = filter (\<lambda>i. itemStartDate i = t) its" for t
    by (rule sort_key_stable)
  show ?thesis
    using excl len stable route [of its]
    by (simp add: sortedItems_sort_key)
qed

lemma scenario_route: "getRouteLocations exampleItems = [narita, haneda, shibuya]"
  by (simp add: getRouteLocations_def sortedItems_def sortBy_def exampleItems_def getTime_def
      exampleFlight_def exampleHotel_def exampleActivity_def)

subsection \<open>\<open>groupByDay\<close>\<close>

lemma mset_concat_groups:
  assumes "distinct ds" "set (map f xs) \<subseteq> set ds"
  shows "mset (concat (map (\<lambda>d. filter (\<lambda>x. f x = d) xs) ds)) = mset xs"
  using assms(2)
proof (induction xs)
  case Nil
  show ?case by (induction ds) simp_all
next
  case (Cons x xs)
  have in_ds: "f x \<in> set ds" using Cons.prems by simp
  have step: "mset (concat (map (\<lambda>d. filter (\<lambda>y. f y = d) (x # xs)) es))
        = (if f x \<in> set es then {#x#} else {#}) + mset (concat (map (\<lambda>d. filter (\<lambda>y. f y = d) xs) es))"
    if "distinct es" for es
    using that by (induction es) auto
  show ?case
    using step [OF assms(1)] in_ds Cons by simp
qed

lemma mset_groupByDay:
  "mset (concat (map snd (groupByDay zone its))) = mset its"
proof -
  let ?ds = "sort (remdups (map (itemDay zone) its))"
  have "mset (concat (map snd (groupByDay zone its)))
        = mset (concat (map (\<lambda>d. sort_key itemStartDate (filter (\<lambda>x. itemDay zone x = d) its)) ?ds))"
    by (simp add: groupByDay_def comp_def)
  also have "\<dots> = mset (concat (map (\<lambda>d. filter (\<lambda>x. itemDay zone x = d) its) ?ds))"
    by (simp add: mset_concat comp_def)
  also have "\<dots> = mset its"
    by (rule mset_concat_groups) simp_all
  finally show ?thesis .
qed

text \<open>
  C5. \<open>groupByDay\<close> partitions the input: the groups, concatenated, are a
  rearrangement of the input (nothing lost, nothing duplicated); the days are strictly
  ascending; every group is not empty, holds exactly the items of its day, is ascending
  by start time, and items with the same start keep their input order.
\<close>

theorem groupByDay_spec:
  "mset (concat (map snd (groupByDay zone its))) = mset its
   \<and> sorted_wrt (<) (map fst (groupByDay zone its))
   \<and> (\<forall>(day, group) \<in> set (groupByDay zone its).
          group \<noteq> []
        \<and> (\<forall>item \<in> set group. itemDay zone item = day)
        \<and> sorted (map itemStartDate group)
        \<and> (\<forall>t. filter (\<lambda>i. itemStartDate i = t) group
                 = filter (\<lambda>i. itemStartDate i = t \<and> itemDay zone i = day) its))"
proof (intro conjI)
  show "mset (concat (map snd (groupByDay zone its))) = mset its"
    by (rule mset_groupByDay)
  have "map fst (groupByDay zone its) = sort (remdups (map (itemDay zone) its))"
    by (simp add: groupByDay_def comp_def)
  then show "sorted_wrt (<) (map fst (groupByDay zone its))"
    by (simp add: strict_sorted_iff)
  show "\<forall>(day, group) \<in> set (groupByDay zone its).
          group \<noteq> []
        \<and> (\<forall>item \<in> set group. itemDay zone item = day)
        \<and> sorted (map itemStartDate group)
        \<and> (\<forall>t. filter (\<lambda>i. itemStartDate i = t) group
                 = filter (\<lambda>i. itemStartDate i = t \<and> itemDay zone i = day) its)"
  proof (clarify, intro conjI)
    fix day group
    assume "(day, group) \<in> set (groupByDay zone its)"
    then have d: "day \<in> set (map (itemDay zone) its)"
      and g: "group = sort_key itemStartDate (filter (\<lambda>item. itemDay zone item = day) its)"
      by (auto simp add: groupByDay_def)
    from d obtain x where "x \<in> set its" "itemDay zone x = day" by auto
    then have "x \<in> set group" by (simp add: g)
    then show "group \<noteq> []" by auto
    show "\<forall>item \<in> set group. itemDay zone item = day" by (simp add: g)
    show "sorted (map itemStartDate group)" by (simp add: g)
    show "\<forall>t. filter (\<lambda>i. itemStartDate i = t) group
                 = filter (\<lambda>i. itemStartDate i = t \<and> itemDay zone i = day) its"
      by (simp add: g sort_key_stable conj_commute)
  qed
qed

theorem groupByDay_spec_witness:
  "(19814, [FlightItem exampleFlight, AccommodationItem exampleHotel])
     \<in> set (groupByDay 0 exampleItems)
   \<and> itemDay 0 (FlightItem exampleFlight) = 19814
   \<and> itemDay 0 (AccommodationItem exampleHotel) = 19814
   \<and> sorted (map itemStartDate [FlightItem exampleFlight, AccommodationItem exampleHotel])"
proof -
  have m: "(19814, [FlightItem exampleFlight, AccommodationItem exampleHotel])
     \<in> set (groupByDay 0 exampleItems)"
    by (simp add: groupByDay_def itemDay_def calendarDay_def Day_def msPerDay_def getTime_def
      exampleItems_def exampleFlight_def exampleHotel_def exampleActivity_def)
  have "(\<forall>item \<in> set [FlightItem exampleFlight, AccommodationItem exampleHotel].
           itemDay 0 item = 19814)
        \<and> sorted (map itemStartDate [FlightItem exampleFlight, AccommodationItem exampleHotel])"
    using groupByDay_spec [of 0 exampleItems] m by blast
  with m show ?thesis by simp
qed

lemma scenario_groups:
  "groupByDay 0 exampleItems =
   [(19814, [FlightItem exampleFlight, AccommodationItem exampleHotel]),
    (19815, [ActivityItem exampleActivity])]"
  by (simp add: groupByDay_def itemDay_def calendarDay_def Day_def msPerDay_def getTime_def
      exampleItems_def exampleFlight_def exampleHotel_def exampleActivity_def)


section \<open>Properties of the timestamp format\<close>

lemma yearSearch_bounds:
  "DayFromYear (yearSearch d y) \<le> d \<and> d < DayFromYear (yearSearch d y + 1)"
proof (induction d y rule: yearSearch.induct)
  case (1 d y)
  show ?case
  proof (cases "d < DayFromYear y")
    case True
    then have "yearSearch d y = yearSearch d (y - 1)" by (subst yearSearch.simps) simp
    then show ?thesis using "1.IH"(1) True by simp
  next
    case False
    show ?thesis
    proof (cases "DayFromYear (y + 1) \<le> d")
      case True
      then have "yearSearch d y = yearSearch d (y + 1)"
        using False by (subst yearSearch.simps) simp
      then show ?thesis using "1.IH"(2) False True by simp
    next
      case F2: False
      then have "yearSearch d y = y"
        using False by (subst yearSearch.simps) simp
      then show ?thesis using False F2 by simp
    qed
  qed
qed

lemma YearFromDay_bounds:
  "DayFromYear (YearFromDay d) \<le> d" "d < DayFromYear (YearFromDay d + 1)"
  using yearSearch_bounds [of d "1970 + d div 365"] by (simp_all add: YearFromDay_def)

lemma dayWithinYear_bounds:
  "0 \<le> d - DayFromYear (YearFromDay d)"
  "d - DayFromYear (YearFromDay d) < DaysInYear (YearFromDay d)"
  using YearFromDay_bounds [of d] DayFromYear_Suc [of "YearFromDay d"] by simp_all

lemma DayFromYear_mono_aux: "DayFromYear a \<le> DayFromYear (a + int n)"
proof (induction n)
  case 0
  show ?case by simp
next
  case (Suc n)
  have "DayFromYear (a + int (Suc n)) = DayFromYear (a + int n) + DaysInYear (a + int n)"
    using DayFromYear_Suc [of "a + int n"] by (simp add: algebra_simps)
  then show ?case using Suc DaysInYear_ge(1) [of "a + int n"] by linarith
qed

lemma DayFromYear_mono: "a \<le> b \<Longrightarrow> DayFromYear a \<le> DayFromYear b"
  using DayFromYear_mono_aux [of a "nat (b - a)"] by simp

lemma year_range:
  assumes "\<bar>d\<bar> \<le> 100000000"
  shows "- 999999 \<le> YearFromDay d" "YearFromDay d \<le> 999999"
proof -
  let ?y = "YearFromDay d"
  have hi: "DayFromYear 1000000 = 364522972" by (simp add: DayFromYear_def)
  have lo: "DayFromYear (- 999999) = - 365961662" by (simp add: DayFromYear_def)
  show "?y \<le> 999999"
  proof (rule ccontr)
    assume "\<not> ?y \<le> 999999"
    then have "DayFromYear 1000000 \<le> DayFromYear ?y" by (intro DayFromYear_mono) simp
    then show False using hi YearFromDay_bounds(1) [of d] assms by linarith
  qed
  show "- 999999 \<le> ?y"
  proof (rule ccontr)
    assume "\<not> - 999999 \<le> ?y"
    then have "DayFromYear (?y + 1) \<le> DayFromYear (- 999999)" by (intro DayFromYear_mono) simp
    then show False using lo YearFromDay_bounds(2) [of d] assms by linarith
  qed
qed

lemma month_bounds:
  assumes "0 \<le> dwy" "dwy < (if leap then 366 else 365)"
  shows "MonthFromDay leap dwy \<le> 11"
    and "monthStart leap (MonthFromDay leap dwy) \<le> dwy"
    and "dwy < monthStart leap (MonthFromDay leap dwy + 1)"
  using assms
  by (simp_all add: MonthFromDay_def monthStart_def split: if_splits)

lemma time_fields:
  fixes tw :: int
  shows "MakeTime (tw div 3600000) (tw div 60000 mod 60) (tw div 1000 mod 60) (tw mod 1000) = tw"
proof -
  have a: "tw div 60000 = tw div 1000 div 60" by (simp add: div_mult2_eq)
  have b: "tw div 3600000 = tw div 60000 div 60" by (simp add: div_mult2_eq)
  have 1: "tw = 1000 * (tw div 1000) + tw mod 1000" by simp
  have 2: "tw div 1000 = 60 * (tw div 1000 div 60) + tw div 1000 mod 60" by simp
  have 3: "tw div 60000 = 60 * (tw div 60000 div 60) + tw div 60000 mod 60" by simp
  show ?thesis
    unfolding MakeTime_def using 1 2 3 a b by linarith
qed

lemma digitValue_digitChar: "n < 10 \<Longrightarrow> digitValue (digitChar n) = n"
  by (simp add: digitValue_def digitChar_def)

lemma isDigit_digitChar: "n < 10 \<Longrightarrow> isDigit (digitChar n)"
  by (simp add: isDigit_def digitChar_def)

lemma digitChar_not_sign:
  assumes "n < 10"
  shows "digitChar n \<noteq> CHR ''+''" "digitChar n \<noteq> CHR ''-''"
proof -
  have e: "(of_char (digitChar n) :: nat) = 48 + n" using assms by (simp add: digitChar_def)
  show "digitChar n \<noteq> CHR ''+''"
  proof
    assume "digitChar n = CHR ''+''"
    then have "(of_char (digitChar n) :: nat) = 43" by simp
    with e show False by simp
  qed
  show "digitChar n \<noteq> CHR ''-''"
  proof
    assume "digitChar n = CHR ''-''"
    then have "(of_char (digitChar n) :: nat) = 45" by simp
    with e show False by simp
  qed
qed

lemma length_padDigits: "length (padDigits w n) = w"
  by (induction w arbitrary: n) simp_all

lemma list_all_padDigits: "list_all isDigit (padDigits w n)"
  by (induction w arbitrary: n) (simp_all add: isDigit_digitChar)

lemma foldl_padDigits:
  "foldl (\<lambda>a c. 10 * a + digitValue c) 0 (padDigits w n) = n mod 10 ^ w"
proof (induction w arbitrary: n)
  case 0
  show ?case by simp
next
  case (Suc w)
  have "foldl (\<lambda>a c. 10 * a + digitValue c) 0 (padDigits (Suc w) n)
        = 10 * (n div 10 mod 10 ^ w) + n mod 10"
    by (simp add: Suc.IH digitValue_digitChar)
  also have "\<dots> = n mod 10 ^ Suc w"
    by (simp add: mod_mult2_eq)
  finally show ?case .
qed

lemma readDigits_padDigits:
  "0 < w \<Longrightarrow> n < 10 ^ w \<Longrightarrow> readDigits (padDigits w n) = Some n"
  unfolding readDigits_def
  using length_padDigits [of w n]
  by (auto simp add: list_all_padDigits foldl_padDigits)

lemma padDigits_2: "padDigits 2 n = [digitChar (n div 10 mod 10), digitChar (n mod 10)]"
  by (simp add: numeral_2_eq_2)

lemma padDigits_3:
  "padDigits 3 n = [digitChar (n div 10 div 10 mod 10), digitChar (n div 10 mod 10), digitChar (n mod 10)]"
  by (simp add: numeral_3_eq_3)

lemma readDigits_2:
  "n < 100 \<Longrightarrow> readDigits [digitChar (n div 10 mod 10), digitChar (n mod 10)] = Some n"
  using readDigits_padDigits [of 2 n] by (simp add: padDigits_2)

lemma readDigits_3:
  "n < 1000 \<Longrightarrow>
   readDigits [digitChar (n div 10 div 10 mod 10), digitChar (n div 10 mod 10), digitChar (n mod 10)]
     = Some n"
  using readDigits_padDigits [of 3 n] by (simp add: padDigits_3)

lemma padDigits_Suc_head:
  "\<exists>cs. padDigits (Suc w) n = digitChar (n div 10 ^ w mod 10) # cs"
proof (induction w arbitrary: n)
  case 0
  show ?case by simp
next
  case (Suc w)
  obtain cs where "padDigits (Suc w) (n div 10) = digitChar (n div 10 div 10 ^ w mod 10) # cs"
    using Suc.IH by blast
  then show ?case by (simp add: div_mult2_eq)
qed

lemma padDigits_Suc_head_digit:
  "\<exists>c cs. padDigits (Suc w) n = c # cs \<and> c \<noteq> CHR ''+'' \<and> c \<noteq> CHR ''-''"
proof -
  obtain cs where "padDigits (Suc w) n = digitChar (n div 10 ^ w mod 10) # cs"
    using padDigits_Suc_head by blast
  moreover have "n div 10 ^ w mod 10 < 10" by simp
  ultimately show ?thesis
    using digitChar_not_sign by blast
qed

lemma parseYear_digits:
  assumes "s = c # cs" "c \<noteq> CHR ''+''" "c \<noteq> CHR ''-''"
    and "readDigits (take 4 (s @ r)) = Some n" "4 \<le> length s"
  shows "parseYear (s @ r) = Some (int n, drop 4 (s @ r))"
  using assms by (simp add: parseYear_def)

lemma parseYear_signed:
  assumes "c = CHR ''+'' \<or> c = CHR ''-''"
    and "readDigits (take 6 cs) = Some n" "6 \<le> length cs" "n \<noteq> 0"
  shows "parseYear (c # cs) = Some (if c = CHR ''-'' then - int n else int n, drop 6 cs)"
  using assms by (simp add: parseYear_def)

lemma parseYear_yearString:
  assumes "- 999999 \<le> y" "y \<le> 999999"
  shows "parseYear (yearString y @ r) = Some (y, r)"
proof (cases "0 \<le> y \<and> y \<le> 9999")
  case True
  define n where "n = nat y"
  have n: "n < 10000" "int n = y" using True by (auto simp add: n_def)
  have "(4::nat) = Suc 3" by simp
  then obtain c cs where cs: "padDigits 4 n = c # cs" "c \<noteq> CHR ''+''" "c \<noteq> CHR ''-''"
    using padDigits_Suc_head_digit [of 3 n] by metis
  have ys: "yearString y = padDigits 4 n" using True by (simp add: yearString_def n_def)
  have t: "take 4 (padDigits 4 n @ r) = padDigits 4 n" "drop 4 (padDigits 4 n @ r) = r"
    by (simp_all add: length_padDigits)
  have rd: "readDigits (padDigits 4 n) = Some n" using n by (intro readDigits_padDigits) simp_all
  have "parseYear (padDigits 4 n @ r) = Some (int n, drop 4 (padDigits 4 n @ r))"
    by (rule parseYear_digits [OF cs]) (simp_all add: t rd length_padDigits)
  then show ?thesis unfolding ys t n .
next
  case False
  define n where "n = nat \<bar>y\<bar>"
  have n: "n < 1000000" "int n = \<bar>y\<bar>" "n \<noteq> 0" using assms False by (auto simp add: n_def)
  define c where "c = (if y < 0 then CHR ''-'' else CHR ''+'')"
  have ys: "yearString y @ r = c # (padDigits 6 n @ r)"
    using False by (simp add: yearString_def n_def c_def)
  have t: "take 6 (padDigits 6 n @ r) = padDigits 6 n" "drop 6 (padDigits 6 n @ r) = r"
    by (simp_all add: length_padDigits)
  have rd: "readDigits (padDigits 6 n) = Some n" using n by (intro readDigits_padDigits) simp_all
  have "parseYear (c # (padDigits 6 n @ r))
        = Some (if c = CHR ''-'' then - int n else int n, drop 6 (padDigits 6 n @ r))"
    by (rule parseYear_signed) (simp_all add: c_def t rd length_padDigits n)
  moreover have "(if c = CHR ''-'' then - int n else int n) = y"
    using n by (simp add: c_def)
  ultimately show ?thesis unfolding ys t by simp
qed

lemma parseDate_fields:
  assumes y: "parseYear (ys @ r) = Some (y, r)"
    and r: "r = ''-'' @ padDigits 2 mo @ ''-'' @ padDigits 2 dt @ ''T'' @ padDigits 2 h
             @ '':'' @ padDigits 2 mi @ '':'' @ padDigits 2 s @ ''.'' @ padDigits 3 ms @ ''Z''"
    and b: "mo < 100" "dt < 100" "h < 100" "mi < 100" "s < 100" "ms < 1000"
    and v: "validFields y mo dt h mi s ms"
  shows "parseDate (ys @ r)
         = TimeClip (MakeDate (MakeDay y (mo - 1) (int dt))
                       (MakeTime (int h) (int mi) (int s) (int ms)))"
proof -
  have r': "r = [CHR ''-'', digitChar (mo div 10 mod 10), digitChar (mo mod 10),
                 CHR ''-'', digitChar (dt div 10 mod 10), digitChar (dt mod 10),
                 CHR ''T'', digitChar (h div 10 mod 10), digitChar (h mod 10),
                 CHR '':'', digitChar (mi div 10 mod 10), digitChar (mi mod 10),
                 CHR '':'', digitChar (s div 10 mod 10), digitChar (s mod 10),
                 CHR ''.'', digitChar (ms div 10 div 10 mod 10), digitChar (ms div 10 mod 10),
                 digitChar (ms mod 10), CHR ''Z'']"
    unfolding r padDigits_2 padDigits_3 by simp
  have shape: "length r = 20 \<and> r ! 0 = CHR ''-'' \<and> r ! 3 = CHR ''-'' \<and> r ! 6 = CHR ''T''
             \<and> r ! 9 = CHR '':'' \<and> r ! 12 = CHR '':'' \<and> r ! 15 = CHR ''.''
             \<and> r ! 19 = CHR ''Z''"
    unfolding r' by simp
  have sl: "take 2 (drop 1 r) = padDigits 2 mo" "take 2 (drop 4 r) = padDigits 2 dt"
      "take 2 (drop 7 r) = padDigits 2 h" "take 2 (drop 10 r) = padDigits 2 mi"
      "take 2 (drop 13 r) = padDigits 2 s" "take 3 (drop 16 r) = padDigits 3 ms"
    unfolding r' padDigits_2 padDigits_3 by simp_all
  have f: "readDigits (take 2 (drop 1 r)) = Some mo"
          "readDigits (take 2 (drop 4 r)) = Some dt"
          "readDigits (take 2 (drop 7 r)) = Some h"
          "readDigits (take 2 (drop 10 r)) = Some mi"
          "readDigits (take 2 (drop 13 r)) = Some s"
          "readDigits (take 3 (drop 16 r)) = Some ms"
    unfolding sl using b by (simp_all add: readDigits_padDigits)
  show ?thesis
    unfolding parseDate_def y using shape f v by simp
qed


text \<open>The format, on two instants: one with milliseconds, one before the year 0.\<close>

lemma toISOString_example:
  "toISOString 1709294400123 = ''2024-03-01T12:00:00.123Z''"
  "toISOString (- 62198755200000) = ''-000001-01-01T00:00:00.000Z''"
  by code_simp+

lemma parseDate_example: "parseDate ''2024-03-01T12:00:00.123Z'' = Some 1709294400123"
  by code_simp

lemma toISOString_nonempty: "toISOString t \<noteq> []"
  by (simp add: toISOString_def Let_def)

lemma parseDate_toISOString:
  assumes "validTimeValue t"
  shows "parseDate (toISOString t) = Some t"
proof -
  define d where "d = Day t"
  define tw where "tw = TimeWithinDay t"
  define y where "y = YearFromDay d"
  define dwy where "dwy = d - DayFromYear y"
  define leap where "leap = InLeapYear y"
  define m where "m = MonthFromDay leap dwy"
  define dt where "dt = dwy - monthStart leap m + 1"
  define r where "r = ''-'' @ padDigits 2 (m + 1) @ ''-'' @ padDigits 2 (nat dt)
         @ ''T'' @ padDigits 2 (nat (tw div 3600000))
         @ '':'' @ padDigits 2 (nat (tw div 60000 mod 60))
         @ '':'' @ padDigits 2 (nat (tw div 1000 mod 60))
         @ ''.'' @ padDigits 3 (nat (tw mod 1000)) @ ''Z''"
  have iso: "toISOString t = yearString y @ r"
    by (simp add: toISOString_def Let_def d_def tw_def y_def dwy_def leap_def m_def dt_def r_def)
  have t_split: "t = d * msPerDay + tw"
    by (simp add: d_def tw_def Day_def TimeWithinDay_def)
  have tw: "0 \<le> tw" "tw < 86400000"
    by (simp_all add: tw_def TimeWithinDay_def msPerDay_def)
  have "\<bar>d\<bar> \<le> 100000000"
    using assms tw t_split unfolding validTimeValue_def msPerDay_def by linarith
  then have yr: "- 999999 \<le> y" "y \<le> 999999"
    unfolding y_def by (rule year_range)+
  have dwy: "0 \<le> dwy" "dwy < (if leap then 366 else 365)"
    using dayWithinYear_bounds [of d] DaysInYear_ge [of y]
    by (auto simp add: dwy_def y_def leap_def InLeapYear_def DaysInYear_def)
  have m: "m \<le> 11" "monthStart leap m \<le> dwy" "dwy < monthStart leap (m + 1)"
    unfolding m_def using dwy by (rule month_bounds)+
  have dt: "1 \<le> dt" "dt \<le> monthStart leap (m + 1) - monthStart leap m"
    using m by (simp_all add: dt_def)
  have span: "monthStart leap (m + 1) - monthStart leap m \<le> 31"
  proof -
    have "m \<in> {0, 1, 2, 3, 4, 5, 6, 7, 8, 9, 10, 11}" using m(1) by (simp add: insert_iff) arith
    then show ?thesis by (auto simp add: monthStart_def)
  qed
  have h: "0 \<le> tw div 3600000" "tw div 3600000 \<le> 23"
  proof -
    show "0 \<le> tw div 3600000" using tw(1) by (simp add: pos_imp_zdiv_nonneg_iff)
    have "tw div 3600000 \<le> 86399999 div 3600000"
      using tw(2) by (intro zdiv_mono1) simp_all
    then show "tw div 3600000 \<le> 23" by simp
  qed
  have fields: "validFields y (m + 1) (nat dt) (nat (tw div 3600000))
                  (nat (tw div 60000 mod 60)) (nat (tw div 1000 mod 60)) (nat (tw mod 1000))"
  proof -
    have v1: "1 \<le> m + 1" "m + 1 \<le> 12" using m(1) by simp_all
    have "tw div 60000 mod 60 < 60" "tw div 1000 mod 60 < 60" by simp_all
    then have v2: "nat (tw div 60000 mod 60) \<le> 59" "nat (tw div 1000 mod 60) \<le> 59"
      by (simp_all add: nat_le_iff)
    have v3: "nat (tw div 3600000) \<le> 23" using h(2) by (simp add: nat_le_iff)
    have v4: "1 \<le> nat dt" using dt(1) by simp
    have "int (nat dt) = dt" using dt(1) by simp
    then have v5: "int (nat dt) \<le> monthStart (InLeapYear y) (m + 1)
                     - monthStart (InLeapYear y) (m + 1 - 1)"
      using dt(2) unfolding leap_def by simp
    show ?thesis
      unfolding validFields_def by (intro conjI disjI1) (rule v1 v2 v3 v4 v5)+
  qed
  have bounds: "m + 1 < 100" "nat dt < 100" "nat (tw div 3600000) < 100"
               "nat (tw div 60000 mod 60) < 100" "nat (tw div 1000 mod 60) < 100"
               "nat (tw mod 1000) < 1000"
  proof -
    show "m + 1 < 100" using m(1) by simp
    show "nat dt < 100" using dt span by linarith
    have "tw div 3600000 < 100" using h(2) by simp
    then show "nat (tw div 3600000) < 100" by (simp add: nat_less_iff)
    have "tw div 60000 mod 60 < 60" "tw div 1000 mod 60 < 60" "tw mod 1000 < 1000"
      by simp_all
    then show "nat (tw div 60000 mod 60) < 100" "nat (tw div 1000 mod 60) < 100"
      "nat (tw mod 1000) < 1000"
      by (simp_all add: nat_less_iff)
  qed
  have py: "parseYear (yearString y @ r) = Some (y, r)"
    using yr by (rule parseYear_yearString)
  have "parseDate (yearString y @ r)
        = TimeClip (MakeDate (MakeDay y (m + 1 - 1) (int (nat dt)))
            (MakeTime (int (nat (tw div 3600000))) (int (nat (tw div 60000 mod 60)))
               (int (nat (tw div 1000 mod 60))) (int (nat (tw mod 1000)))))"
    using py r_def bounds fields by (rule parseDate_fields)
  moreover have "MakeDay y (m + 1 - 1) (int (nat dt)) = d"
    using dt(1) by (simp add: MakeDay_def dt_def dwy_def leap_def)
  moreover have "MakeTime (int (nat (tw div 3600000))) (int (nat (tw div 60000 mod 60)))
               (int (nat (tw div 1000 mod 60))) (int (nat (tw mod 1000))) = tw"
  proof -
    have e: "int (nat (tw div 3600000)) = tw div 3600000"
      "int (nat (tw div 60000 mod 60)) = tw div 60000 mod 60"
      "int (nat (tw div 1000 mod 60)) = tw div 1000 mod 60"
      "int (nat (tw mod 1000)) = tw mod 1000"
      using h(1) by simp_all
    show ?thesis unfolding e by (rule time_fields)
  qed
  ultimately have "parseDate (yearString y @ r) = TimeClip (MakeDate d tw)" by (simp only:)
  also have "MakeDate d tw = t" unfolding MakeDate_def using t_split by simp
  finally show ?thesis
    unfolding iso using assms by (simp add: TimeClip_def)
qed


section \<open>Properties of the persistence layer\<close>

lemma setItem_accepts:
  "accepts st k v \<Longrightarrow> setItem st k v = Inr (st\<lparr>entries := AList.update k v (entries st)\<rparr>)"
  by (simp add: setItem_def accepts_def Let_def)

lemma setItem_rejects:
  "\<not> accepts st k v \<Longrightarrow> setItem st k v = Inl QuotaExceededError"
  by (simp add: setItem_def accepts_def Let_def)

lemma getItem_update:
  "getItem (st\<lparr>entries := AList.update k v (entries st)\<rparr>) k = Some v"
  by (simp add: getItem_def update_conv')

lemma getItem_removeItem: "getItem (removeItem st k) k = None"
  by (simp add: getItem_def removeItem_def delete_conv')

subsection \<open>Serialization, constructor by constructor\<close>

lemma Serialize_leaf [simp]:
  "SerializeJSONProperty k JUndefined = Inr None"
  "SerializeJSONProperty k JNull = Inr (Some JNull)"
  "SerializeJSONProperty k (JBool b) = Inr (Some (JBool b))"
  "SerializeJSONProperty k (JNum r) = Inr (Some (JNum r))"
  "SerializeJSONProperty k (JStr s) = Inr (Some (JStr s))"
  "SerializeJSONProperty k (JDate None) = Inr (Some JNull)"
  "SerializeJSONProperty k (JDate (Some t)) = Inr (Some (JStr (toISOString t)))"
  by (simp_all add: SerializeJSONProperty.simps replacer_def)


lemma Serialize_object:
  "SerializeJSONProperty k (JObject kvs) =
     (case sequenceE (map serializeProperty kvs) of
        Inl e \<Rightarrow> Inl e
      | Inr ps \<Rightarrow> Inr (Some (JObject (concat ps))))"
proof -
  have "serializeProperty = (\<lambda>(k, x). case SerializeJSONProperty k x of
                                                  Inl e \<Rightarrow> Inl e
                                                | Inr None \<Rightarrow> Inr []
                                                | Inr (Some j) \<Rightarrow> Inr [(k, j)])"
    by (auto simp add: serializeProperty_def fun_eq_iff)
  then show ?thesis
    by (subst SerializeJSONProperty.simps) (simp add: replacer_def)
qed

lemma Serialize_array:
  "SerializeJSONProperty k (JArray xs) =
     (case sequenceE (map (\<lambda>(k, x). SerializeJSONProperty k x) (zip (indexKeys xs) xs)) of
        Inl e \<Rightarrow> Inl e
      | Inr ys \<Rightarrow> Inr (Some (JArray (map (\<lambda>y. case y of None \<Rightarrow> JNull | Some j \<Rightarrow> j) ys))))"
  by (subst SerializeJSONProperty.simps) (simp add: replacer_def)

lemma sequenceE_append:
  "sequenceE (xs @ ys) =
     (case sequenceE xs of
        Inl e \<Rightarrow> Inl e
      | Inr as \<Rightarrow> (case sequenceE ys of Inl e \<Rightarrow> Inl e | Inr bs \<Rightarrow> Inr (as @ bs)))"
  by (induction xs) (auto split: sum.splits)

lemma sequenceE_map_Inr:
  "(\<And>x. x \<in> set xs \<Longrightarrow> f x = Inr (g x)) \<Longrightarrow> sequenceE (map f xs) = Inr (map g xs)"
  by (induction xs) auto

lemma sequenceE_zip_map_Inr:
  assumes "\<And>k x. x \<in> set xs \<Longrightarrow> f k (h x) = Inr (g x)" "length ks = length xs"
  shows "sequenceE (map (\<lambda>(k, x). f k x) (zip ks (map h xs))) = Inr (map g xs)"
proof -
  have "map (\<lambda>(k, x). f k x) (zip ks (map h xs)) = map (\<lambda>x. Inr (g x)) xs"
    using assms
  proof (induction xs arbitrary: ks)
    case Nil
    show ?case by simp
  next
    case (Cons x xs)
    then show ?case by (cases ks) auto
  qed
  then show ?thesis by (simp add: sequenceE_map_Inr)
qed

lemma Serialize_array_map:
  assumes "\<And>k x. x \<in> set xs \<Longrightarrow> SerializeJSONProperty k (h x) = Inr (Some (g x))"
  shows "SerializeJSONProperty k (JArray (map h xs)) = Inr (Some (JArray (map g xs)))"
proof -
  have "sequenceE (map (\<lambda>(k, x). SerializeJSONProperty k x) (zip (indexKeys (map h xs)) (map h xs)))
        = Inr (map (\<lambda>x. Some (g x)) xs)"
    using assms by (intro sequenceE_zip_map_Inr) (simp_all add: indexKeys_def)
  then show ?thesis by (simp add: Serialize_array comp_def)
qed

lemma serializeProperty_leaf [simp]:
  "serializeProperty (k, JStr s) = Inr [(k, JStr s)]"
  "serializeProperty (k, JNum r) = Inr [(k, JNum r)]"
  "serializeProperty (k, dateVal d) = Inr [(k, isoVal d)]"
  "serializeProperty (k, isoVal d) = Inr [(k, isoVal d)]"
  by (simp_all add: serializeProperty_def dateVal_def isoVal_def)

lemma Serialize_location [simp]:
  "SerializeJSONProperty k (locationVal l) = Inr (Some (locationVal l))"
  by (simp add: locationVal_def Serialize_object)

lemma serializeProperty_location [simp]:
  "serializeProperty (k, locationVal l) = Inr [(k, locationVal l)]"
  by (simp add: serializeProperty_def)

lemma serializeProperty_activityType [simp]:
  "serializeProperty (k, activityTypeVal a) = Inr [(k, activityTypeVal a)]"
  by (cases a) simp_all

lemma sequenceE_optional_JStr:
  "sequenceE (map serializeProperty (optional k JStr x)) = Inr (map (\<lambda>p. [p]) (optional k JStr x))"
  by (cases x) (simp_all add: optional_def)

lemma sequenceE_optional_date:
  "sequenceE (map serializeProperty (optional k dateVal x)) = Inr (map (\<lambda>p. [p]) (optional k isoVal x))"
  by (cases x) (simp_all add: optional_def)

lemma serialize_itemProps:
  "sequenceE (map serializeProperty (itemProps dateVal item))
     = Inr (map (\<lambda>p. [p]) (itemProps isoVal item))"
  by (cases item) (simp_all add: sequenceE_append sequenceE_optional_JStr)

lemma concat_singletons: "concat (map (\<lambda>p. [p]) ps) = ps"
  by (induction ps) simp_all

lemma Serialize_itemVal:
  "SerializeJSONProperty k (itemVal item) = Inr (Some (itemRepr isoVal item))"
proof -
  have "sequenceE (map serializeProperty
          (itemProps dateVal item @ optional ''endDate'' dateVal (itemEndDate item)))
        = Inr (map (\<lambda>p. [p]) (itemProps isoVal item @ optional ''endDate'' isoVal (itemEndDate item)))"
    by (simp add: sequenceE_append serialize_itemProps sequenceE_optional_date)
  then show ?thesis
    unfolding itemVal_def itemRepr_def Serialize_object
    by (simp only: concat_singletons sum.case)
qed

lemma Serialize_tripVal:
  "SerializeJSONProperty k (tripVal t) = Inr (Some (tripRepr isoVal (itemRepr isoVal) t))"
proof -
  have "SerializeJSONProperty k' (JArray (map itemVal (items t)))
        = Inr (Some (JArray (map (itemRepr isoVal) (items t))))" for k'
    by (rule Serialize_array_map) (rule Serialize_itemVal)
  then have "serializeProperty (''items'', JArray (map itemVal (items t)))
        = Inr [(''items'', JArray (map (itemRepr isoVal) (items t)))]"
    by (simp add: serializeProperty_def)
  then show ?thesis
    by (simp add: tripVal_def tripRepr_def Serialize_object)
qed

lemma Serialize_tripsVal:
  "SerializeJSONProperty k (tripsVal ts) = Inr (Some (tripsJson ts))"
  unfolding tripsVal_def tripsJson_def
  by (rule Serialize_array_map) (rule Serialize_tripVal)

lemma serializeTrips_eq:
  "serializeTrips P ts = Inr (Some (printJSON P (tripsJson ts)))"
  by (simp add: serializeTrips_def JSON_stringify_def Serialize_tripsVal)

lemma map_of_optional_other [simp]:
  "k \<noteq> k' \<Longrightarrow> map_of (optional k' f x @ r) k = map_of r k"
  "k \<noteq> k' \<Longrightarrow> map_of (optional k' f x) k = None"
  by (cases x; simp add: optional_def)+

lemma map_add_optional_other [simp]:
  "k \<noteq> k' \<Longrightarrow> (m ++ map_of (optional k' f x)) k = m k"
  by (cases x) (simp_all add: optional_def)

lemma map_of_optional_same [simp]:
  "map_of (optional k f x) k = map_option f x"
  by (cases x) (simp_all add: optional_def)

lemma update_optional_other [simp]:
  "k \<noteq> k' \<Longrightarrow> AList.update k v (optional k' f x @ r) = optional k' f x @ AList.update k v r"
  by (cases x) (simp_all add: optional_def)

lemma update_optional_same [simp]:
  "AList.update k v (optional k f x) = [(k, v)]"
  by (cases x) (simp_all add: optional_def)

lemma newDate_isoVal: "validTimeValue d \<Longrightarrow> newDate (isoVal d) = dateVal d"
  by (simp add: newDate_def isoVal_def dateVal_def parseDate_toISOString)

lemma truthy_undefined [simp]: "\<not> truthy JUndefined"
  by (simp add: truthy_def)

lemma truthy_isoVal [simp]: "truthy (isoVal d)"
  by (simp add: truthy_def isoVal_def toISOString_nonempty)

lemma bindE_Inr [simp]: "bindE (Inr x) f = f x"
  by (simp add: bindE_def)

lemma bindE_Inl [simp]: "bindE (Inl e) f = Inl e"
  by (simp add: bindE_def)

lemma getProp_object [simp]:
  "getProp (JObject kvs) k = Inr (case map_of kvs k of None \<Rightarrow> JUndefined | Some x \<Rightarrow> x)"
  by (simp add: getProp_def)

lemma ownProperties_object [simp]: "ownProperties (JObject kvs) = kvs"
  by (simp add: ownProperties_def)

lemma reviveItem_itemRepr:
  assumes "itemDatesValid item"
  shows "reviveItem (itemRepr isoVal item) = Inr (itemRevived item)"
proof (cases item)
  case (FlightItem f)
  show ?thesis
  proof (cases "BaseItem.endDate f")
    case None
    then show ?thesis
      using assms FlightItem
      by (simp add: reviveItem_def itemRepr_def itemRevived_def setProp_def Let_def newDate_isoVal)
  next
    case (Some d)
    then show ?thesis
      using assms FlightItem
      by (simp add: reviveItem_def itemRepr_def itemRevived_def setProp_def Let_def newDate_isoVal)
  qed
next
  case (AccommodationItem a)
  show ?thesis
  proof (cases "BaseItem.endDate a")
    case None
    then show ?thesis
      using assms AccommodationItem
      by (simp add: reviveItem_def itemRepr_def itemRevived_def setProp_def Let_def newDate_isoVal)
  next
    case (Some d)
    then show ?thesis
      using assms AccommodationItem
      by (simp add: reviveItem_def itemRepr_def itemRevived_def setProp_def Let_def newDate_isoVal)
  qed
next
  case (ActivityItem a)
  show ?thesis
  proof (cases "BaseItem.endDate a")
    case None
    then show ?thesis
      using assms ActivityItem
      by (simp add: reviveItem_def itemRepr_def itemRevived_def setProp_def Let_def newDate_isoVal)
  next
    case (Some d)
    then show ?thesis
      using assms ActivityItem
      by (simp add: reviveItem_def itemRepr_def itemRevived_def setProp_def Let_def newDate_isoVal)
  qed
qed

lemma arrayMap_map:
  assumes "\<And>x. x \<in> set xs \<Longrightarrow> f (h x) = Inr (g x)"
  shows "arrayMap f (JArray (map h xs)) = Inr (JArray (map g xs))"
proof -
  have "sequenceE (map f (map h xs)) = Inr (map g xs)"
    using assms by (induction xs) auto
  then show ?thesis by (simp add: arrayMap_def)
qed

lemma reviveTrip_tripRepr:
  assumes "tripDatesValid t"
  shows "reviveTrip (tripRepr isoVal (itemRepr isoVal) t) = Inr (tripRepr dateVal itemRevived t)"
proof -
  have its: "arrayMap reviveItem (JArray (map (itemRepr isoVal) (items t)))
             = Inr (JArray (map itemRevived (items t)))"
    using assms
    by (intro arrayMap_map reviveItem_itemRepr) (simp add: tripDatesValid_def list_all_iff)
  show ?thesis
    using assms
    by (simp add: reviveTrip_def tripRepr_def its setProp_def newDate_isoVal tripDatesValid_def)
qed

lemma revive_tripsJson:
  assumes "datesValid ts"
  shows "arrayMap reviveTrip (tripsJson ts) = Inr (tripsRevived ts)"
  unfolding tripsJson_def tripsRevived_def
  using assms
  by (intro arrayMap_map reviveTrip_tripRepr) (simp add: datesValid_def list_all_iff)

lemma dropUndefined_location [simp]: "dropUndefined (locationVal l) = locationVal l"
  by (simp add: locationVal_def)

lemma dropUndefined_dateVal [simp]: "dropUndefined (dateVal d) = dateVal d"
  by (simp add: dateVal_def)

lemma dateVal_defined [simp]: "dateVal d \<noteq> JUndefined"
  by (simp add: dateVal_def)

lemma locationVal_defined [simp]: "locationVal l \<noteq> JUndefined"
  by (simp add: locationVal_def)

lemma activityTypeVal_plain [simp]:
  "activityTypeVal a \<noteq> JUndefined" "dropUndefined (activityTypeVal a) = activityTypeVal a"
  by (cases a; simp)+


lemma dropUndefined_object: "dropUndefined (JObject kvs) = JObject (dropProps kvs)"
  by (simp add: dropProps_def)

lemma dropProps_simps [simp]:
  "dropProps [] = []"
  "dropProps ((k, v) # kvs) = (if v = JUndefined then [] else [(k, dropUndefined v)]) @ dropProps kvs"
  "dropProps (xs @ ys) = dropProps xs @ dropProps ys"
  by (simp_all add: dropProps_def)

lemma dropProps_optional [simp]:
  "dropProps (optional k JStr x) = optional k JStr x"
  "dropProps (optional k dateVal y) = optional k dateVal y"
  by (cases x; cases y; simp add: optional_def)+

lemma dropProps_itemProps: "dropProps (itemProps dateVal item) = itemProps dateVal item"
  by (cases item) simp_all

lemma dropUndefined_itemVal: "dropUndefined (itemVal item) = itemVal item"
  by (simp add: itemVal_def itemRepr_def dropProps_itemProps del: dropUndefined.simps
      add: dropUndefined_object)

lemma dropUndefined_itemRevived: "dropUndefined (itemRevived item) = itemVal item"
  by (cases "itemEndDate item")
     (simp_all add: itemVal_def itemRepr_def itemRevived_def dropProps_itemProps optional_def
        dropUndefined_object del: dropUndefined.simps)

lemma sameValue_tripsRevived: "sameValue (tripsRevived ts) (tripsVal ts)"
  by (simp add: sameValue_def tripsRevived_def tripsVal_def tripVal_def tripRepr_def
      dropUndefined_itemVal dropUndefined_itemRevived comp_def)

lemma field_Cons [simp]:
  "field ((k', v) # props) k = (if k = k' then v else field props k)"
  by (simp add: field_def)

lemma field_optional_other [simp]:
  "k \<noteq> k' \<Longrightarrow> field (optional k' f x @ r) k = field r k"
  "k \<noteq> k' \<Longrightarrow> field (optional k' f x) k = JUndefined"
  by (cases x; simp add: optional_def field_def)+

lemma field_optional_same [simp]:
  "\<forall>y. f y \<noteq> JUndefined \<Longrightarrow> asOptional c (field (optional k f x @ r) k) = (case x of None \<Rightarrow> asOptional c (field r k) | Some y \<Rightarrow> map_option Some (c (f y)))"
  by (cases x) (simp_all add: optional_def asOptional_def)

lemma field_Nil [simp]: "field [] k = JUndefined"
  by (simp add: field_def)

lemma asLocation_locationVal [simp]: "asLocation (locationVal l) = Some l"
  by (simp add: locationVal_def)

lemma asDate_dateVal [simp]: "asDate (dateVal d) = Some d"
  by (simp add: dateVal_def)

lemma asActivityType_val [simp]: "asActivityType (activityTypeVal a) = Some a"
  by (cases a) (simp_all add: asActivityType_def)

lemma asOptional_simps [simp]:
  "asOptional c JUndefined = Some None"
  "asOptional asString (JStr s) = Some (Some s)"
  "asOptional asDate (dateVal d) = Some (Some d)"
  by (simp_all add: asOptional_def dateVal_def)

lemma asItem_itemRevived: "asItem (itemRevived item) = Some item"
proof (cases item)
  case (FlightItem f)
  then show ?thesis
    by (simp add: itemRevived_def asFlight_def asBaseItem_def BaseItem.extend_def
        Flight.fields_def split: option.splits)
next
  case (AccommodationItem a)
  then show ?thesis
    by (simp add: itemRevived_def asAccommodation_def asBaseItem_def BaseItem.extend_def
        Accommodation.fields_def split: option.splits)
next
  case (ActivityItem a)
  then show ?thesis
    by (simp add: itemRevived_def asActivity_def asBaseItem_def BaseItem.extend_def
        Activity.fields_def split: option.splits)
qed


lemma asItem_itemVal: "asItem (itemVal item) = Some item"
proof (cases item)
  case (FlightItem f)
  then show ?thesis
    by (cases "BaseItem.endDate f")
       (simp_all add: itemVal_def itemRepr_def optional_def asFlight_def asBaseItem_def
          BaseItem.extend_def Flight.fields_def split: option.splits)
next
  case (AccommodationItem a)
  then show ?thesis
    by (cases "BaseItem.endDate a")
       (simp_all add: itemVal_def itemRepr_def optional_def asAccommodation_def asBaseItem_def
          BaseItem.extend_def Accommodation.fields_def split: option.splits)
next
  case (ActivityItem a)
  then show ?thesis
    by (cases "BaseItem.endDate a")
       (simp_all add: itemVal_def itemRepr_def optional_def asActivity_def asBaseItem_def
          BaseItem.extend_def Activity.fields_def split: option.splits)
qed

lemma allSome_map:
  "(\<And>x. x \<in> set xs \<Longrightarrow> conv (h x) = Some x) \<Longrightarrow> allSome (map conv (map h xs)) = Some xs"
  by (induction xs) simp_all

lemma asTrip_tripRepr:
  assumes "\<And>item. asItem (iv item) = Some item"
  shows "asTrip (tripRepr dateVal iv t) = Some t"
proof -
  have "allSome (map asItem (map iv (items t))) = Some (items t)"
    by (rule allSome_map) (rule assms)
  then show ?thesis
    by (simp add: tripRepr_def)
qed

lemma asTrips_tripsRevived: "asTrips (tripsRevived ts) = Some ts"
proof -
  have "allSome (map asTrip (map (tripRepr dateVal itemRevived) ts)) = Some ts"
    by (rule allSome_map) (rule asTrip_tripRepr, rule asItem_itemRevived)
  then show ?thesis
    by (simp add: asTrips_def tripsRevived_def)
qed

lemma asTrips_tripsVal: "asTrips (tripsVal ts) = Some ts"
proof -
  have "allSome (map asTrip (map (tripRepr dateVal itemVal) ts)) = Some ts"
    by (rule allSome_map) (rule asTrip_tripRepr, rule asItem_itemVal)
  then show ?thesis
    by (simp add: asTrips_def tripsVal_def tripVal_def)
qed

lemma deserialize_serialized:
  assumes "datesValid ts"
    and "JSON_parse P (printJSON P (tripsJson ts)) = Inr (tripsJson ts)"
  shows "deserializeTrips P (printJSON P (tripsJson ts)) = Inr (tripsRevived ts)"
  using assms by (simp add: deserializeTrips_def revive_tripsJson)

text \<open>
  C1. Loading after saving returns the trips that were saved. For every trip set
  \<open>ts\<close> whose timestamps are valid dates, on a platform whose \<open>JSON.parse\<close> reads back
  the document printed by \<open>JSON.stringify\<close>, and in a store that accepts the write:
  \<open>loadTrips\<close> applied to the world left by \<open>saveTrips ts\<close> returns \<open>tripsRevived ts\<close>.
  Read at the types of the domain model, that value is \<open>ts\<close>: every item is of the
  variant of its \<open>type\<close> tag, and every timestamp field (of the trip, of the item, and the
  departure/arrival or check-in/check-out of the variant) is a \<open>Date\<close> of the same time
  value, to the millisecond. As an object it differs from \<open>tripsVal ts\<close> only in that an
  item without end date carries the property \<open>endDate\<close> with the value undefined.
\<close>

theorem trips_roundtrip:
  assumes "datesValid ts"
    and "JSON_parse P (printJSON P (tripsJson ts)) = Inr (tripsJson ts)"
    and "accepts (localStorage w) STORAGE_KEY (printJSON P (tripsJson ts))"
  shows "fst (loadTrips P (saveTrips P ts w)) = Inr (tripsRevived ts)
         \<and> asTrips (tripsRevived ts) = Some ts
         \<and> sameValue (tripsRevived ts) (tripsVal ts)"
proof -
  let ?text = "printJSON P (tripsJson ts)"
  have ne: "?text \<noteq> []"
    using assms(2) by (auto simp add: JSON_parse_def split: if_splits)
  have "saveTripsBody P ts (localStorage w)
        = Inr ((localStorage w)\<lparr>entries := AList.update STORAGE_KEY ?text (entries (localStorage w))\<rparr>)"
    using assms(3) by (simp add: saveTripsBody_def serializeTrips_eq storedText_def setItem_accepts)
  then have "getItem (localStorage (saveTrips P ts w)) STORAGE_KEY = Some ?text"
    by (simp add: saveTrips_def getItem_update)
  then have "loadTripsBody P (localStorage (saveTrips P ts w)) = Inr (tripsRevived ts)"
    using ne deserialize_serialized [OF assms(1,2)] by (simp add: loadTripsBody_def)
  then show ?thesis
    by (simp add: loadTrips_def sameValue_tripsRevived asTrips_tripsRevived)
qed

lemma exampleTrip_datesValid: "datesValid [exampleTrip]"
  by (simp add: datesValid_def tripDatesValid_def exampleTrip_def exampleFlight_def
      exampleHotel_def exampleActivity_def validTimeValue_def)

theorem trips_roundtrip_witness:
  "datesValid [exampleTrip]
   \<and> JSON_parse exampleCodec (printJSON exampleCodec (tripsJson [exampleTrip]))
        = Inr (tripsJson [exampleTrip])
   \<and> accepts (localStorage (emptyWorld 5000000)) STORAGE_KEY
        (printJSON exampleCodec (tripsJson [exampleTrip]))
   \<and> fst (loadTrips exampleCodec (saveTrips exampleCodec [exampleTrip] (emptyWorld 5000000)))
        = Inr (tripsRevived [exampleTrip])
   \<and> asTrips (tripsRevived [exampleTrip]) = Some [exampleTrip]
   \<and> sameValue (tripsRevived [exampleTrip]) (tripsVal [exampleTrip])"
proof -
  have p: "JSON_parse exampleCodec (printJSON exampleCodec (tripsJson [exampleTrip]))
        = Inr (tripsJson [exampleTrip])"
    by (simp add: JSON_parse_def exampleCodec_def)
  have a: "accepts (localStorage (emptyWorld 5000000)) STORAGE_KEY
        (printJSON exampleCodec (tripsJson [exampleTrip]))"
    by (simp add: accepts_def emptyWorld_def storageSize_def exampleCodec_def STORAGE_KEY_def)
  show ?thesis
    using trips_roundtrip [OF exampleTrip_datesValid p a] exampleTrip_datesValid p a by simp
qed

text \<open>
  C10 (amended). For every non-empty string \<open>s\<close>, in a store that accepts the write,
  \<open>loadCurrentTripId\<close> after \<open>saveCurrentTripId s\<close> returns \<open>s\<close>.
  \<open>saveCurrentTripId null\<close> removes the stored key, so that \<open>loadCurrentTripId\<close> returns
  null; the empty string is treated like null.
\<close>

theorem currentTripId_roundtrip:
  "(s \<noteq> [] \<and> accepts (localStorage w) ''current-trip-id'' s
      \<longrightarrow> fst (loadCurrentTripId (saveCurrentTripId (Some s) w)) = Some s)
   \<and> fst (loadCurrentTripId (saveCurrentTripId None w)) = None
   \<and> getItem (localStorage (saveCurrentTripId None w)) ''current-trip-id'' = None
   \<and> fst (loadCurrentTripId (saveCurrentTripId (Some []) w)) = None"
  by (simp add: loadCurrentTripId_def saveCurrentTripId_def setItem_accepts getItem_update
      getItem_removeItem)

theorem currentTripId_roundtrip_witness:
  "''trip-1'' \<noteq> [] \<and> accepts (localStorage (emptyWorld 100)) ''current-trip-id'' ''trip-1''
   \<and> fst (loadCurrentTripId (saveCurrentTripId (Some ''trip-1'') (emptyWorld 100))) = Some ''trip-1''"
proof -
  have a: "accepts (localStorage (emptyWorld 100)) ''current-trip-id'' ''trip-1''"
    by (simp add: accepts_def emptyWorld_def storageSize_def)
  then show ?thesis
    using currentTripId_roundtrip [of "''trip-1''" "emptyWorld 100"] by simp
qed

text \<open>
  C10 as stated fails at the empty string, which is a non-null string: saving it removes
  the key, and loading returns null.
\<close>

theorem currentTripId_empty_string_counterexample:
  "fst (loadCurrentTripId (saveCurrentTripId (Some '''') (emptyWorld 100))) \<noteq> Some ''''"
  by (simp add: loadCurrentTripId_def saveCurrentTripId_def getItem_removeItem)

lemma saveTripsBody_eq:
  "saveTripsBody P trips st = setItem st STORAGE_KEY (printJSON P (tripsJson trips))"
  by (simp add: saveTripsBody_def serializeTrips_eq storedText_def)

text \<open>
  C3. A save fails exactly when the store rejects the write (its capacity would be
  exceeded). Then the failure is reported on the console and by an alert, and the store
  is left as it was: every key reads as before.
\<close>

theorem saveTrips_failure:
  "(saveTripsBody P trips (localStorage w) = Inl e
      \<longleftrightarrow> e = QuotaExceededError
          \<and> \<not> accepts (localStorage w) STORAGE_KEY (printJSON P (tripsJson trips)))
   \<and> (saveTripsBody P trips (localStorage w) = Inl e \<longrightarrow>
        localStorage (saveTrips P trips w) = localStorage w
      \<and> (\<forall>k. getItem (localStorage (saveTrips P trips w)) k = getItem (localStorage w) k)
      \<and> console (saveTrips P trips w)
           = console w @ [(''Failed to save trips to localStorage:'', e)]
      \<and> alerts (saveTrips P trips w)
           = alerts w @ [''Storage quota exceeded. Please delete some trips to free up space.''])"
proof -
  have 1: "saveTripsBody P trips (localStorage w) = Inl e
      \<longleftrightarrow> e = QuotaExceededError
          \<and> \<not> accepts (localStorage w) STORAGE_KEY (printJSON P (tripsJson trips))"
    by (cases "accepts (localStorage w) STORAGE_KEY (printJSON P (tripsJson trips))")
       (auto simp add: saveTripsBody_eq setItem_accepts setItem_rejects)
  show ?thesis
    unfolding 1 by (auto simp add: saveTrips_def saveTripsBody_eq setItem_rejects
        consoleError_def alert_def Let_def)
qed

theorem saveTrips_failure_witness:
  "saveTripsBody exampleCodec [exampleTrip] (localStorage (fullWorld)) = Inl QuotaExceededError
   \<and> getItem (localStorage (saveTrips exampleCodec [exampleTrip] fullWorld)) STORAGE_KEY
       = Some ''[]''
   \<and> console (saveTrips exampleCodec [exampleTrip] fullWorld)
       = [(''Failed to save trips to localStorage:'', QuotaExceededError)]"
proof -
  have r: "\<not> accepts (localStorage fullWorld) STORAGE_KEY
             (printJSON exampleCodec (tripsJson [exampleTrip]))"
    by (simp add: accepts_def fullWorld_def storageSize_def exampleCodec_def STORAGE_KEY_def)
  have g: "getItem (localStorage fullWorld) STORAGE_KEY = Some ''[]''"
    by (simp add: getItem_def fullWorld_def STORAGE_KEY_def)
  have c: "console fullWorld = []"
    by (simp add: fullWorld_def)
  show ?thesis
    using saveTrips_failure [of exampleCodec "[exampleTrip]" fullWorld QuotaExceededError] r g c
    by simp
qed

text \<open>
  C2. \<open>loadTrips\<close> never raises: it always returns a value. When the stored text is
  absent it returns the empty array, and when the stored text is present but cannot be
  parsed it returns the empty array as well, as it does for any exception in its body.
\<close>

theorem loadTrips_never_raises:
  "(\<exists>v. fst (loadTrips P w) = Inr v)
   \<and> (getItem (localStorage w) STORAGE_KEY = None \<longrightarrow> fst (loadTrips P w) = Inr (JArray []))
   \<and> (\<forall>data e. getItem (localStorage w) STORAGE_KEY = Some data \<and> JSON_parse P data = Inl e
         \<longrightarrow> fst (loadTrips P w) = Inr (JArray []))
   \<and> (\<forall>e. loadTripsBody P (localStorage w) = Inl e \<longrightarrow> fst (loadTrips P w) = Inr (JArray []))"
  by (auto simp add: loadTrips_def loadTripsBody_def deserializeTrips_def bindE_def
      split: sum.splits option.splits)

theorem loadTrips_never_raises_witness:
  "getItem (localStorage (emptyWorld 100)) STORAGE_KEY = None
   \<and> fst (loadTrips exampleCodec (emptyWorld 100)) = Inr (JArray [])
   \<and> getItem (localStorage corruptWorld) STORAGE_KEY = Some ''{not json''
   \<and> JSON_parse exampleCodec ''{not json'' = Inl SyntaxError
   \<and> fst (loadTrips exampleCodec corruptWorld) = Inr (JArray [])"
proof -
  have a: "getItem (localStorage (emptyWorld 100)) STORAGE_KEY = None"
    by (simp add: getItem_def emptyWorld_def)
  have b: "getItem (localStorage corruptWorld) STORAGE_KEY = Some ''{not json''"
    by (simp add: getItem_def corruptWorld_def STORAGE_KEY_def)
  have c: "JSON_parse exampleCodec ''{not json'' = Inl SyntaxError"
    by (simp add: JSON_parse_def exampleCodec_def)
  show ?thesis
    using loadTrips_never_raises [of exampleCodec "emptyWorld 100"]
      loadTrips_never_raises [of exampleCodec corruptWorld] a b c
    by blast
qed


section \<open>Properties of the geocoding gateway\<close>

lemma trim_empty_iff: "trim s = [] \<longleftrightarrow> blank s"
proof -
  have "dropWhile P xs = [] \<longleftrightarrow> list_all P xs" for P and xs :: string
    by (induction xs) auto
  moreover have "list_all P (rev (dropWhile P xs)) \<longleftrightarrow> list_all P xs" for P and xs :: string
    by (induction xs) (auto simp add: list_all_iff)
  ultimately show ?thesis
    by (simp add: trim_def blank_def)
qed

text \<open>
  C9. \<open>geocodeAddress\<close> fails with the empty-address error for a blank address (empty or
  only white space); for any other address it fails with the not-found error when the
  provider answers with no match, and with a transport error that wraps the detail of a
  network failure, of a response that is not a success, or of a body that cannot be read.
  The three errors differ from each other; the not-found error and the transport error
  carry the same prefix and differ in the detail, as long as the platform's failure
  message is not the text of the not-found error itself.
\<close>

theorem geocodeAddress_failures:
  "(blank addr \<longrightarrow> geocodeAddress E addr fetched = Inl emptyAddressError)
   \<and> (\<not> blank addr \<longrightarrow>
        geocodeAddress E addr (Responded True st (Body (JArray []))) = Inl notFoundError
      \<and> geocodeAddress E addr (Responded True st (Body JNull)) = Inl notFoundError
      \<and> geocodeAddress E addr (Rejected (ErrorObject m)) = Inl (transportError m)
      \<and> geocodeAddress E addr (Responded False st body)
          = Inl (transportError (''Geocoding failed: '' @ st))
      \<and> geocodeAddress E addr (Responded True st (NotJSON m)) = Inl (transportError m))
   \<and> emptyAddressError \<noteq> notFoundError
   \<and> emptyAddressError \<noteq> transportError m
   \<and> notFoundError \<noteq> transportError (''Geocoding failed: '' @ st)
   \<and> (m \<noteq> ''Address not found. Please try a different address format.''
        \<longrightarrow> notFoundError \<noteq> transportError m)"
proof -
  have b: "addr = [] \<or> trim addr = [] \<longleftrightarrow> blank addr"
    by (auto simp add: trim_empty_iff blank_def)
  show ?thesis
    unfolding geocodeAddress_def b
    by (simp add: geocodeAttempt_def emptyAddressError_def notFoundError_def transportError_def
        truthy_def lengthOf_def)
qed

theorem geocodeAddress_failures_witness:
  "blank ''   ''
   \<and> geocodeAddress exampleEngine ''   '' (Responded True ''OK'' (Body (JArray [])))
       = Inl emptyAddressError
   \<and> \<not> blank ''Tokyo''
   \<and> geocodeAddress exampleEngine ''Tokyo'' (Responded True ''OK'' (Body (JArray [])))
       = Inl notFoundError
   \<and> geocodeAddress exampleEngine ''Tokyo'' (Rejected (ErrorObject ''Failed to fetch''))
       = Inl (transportError ''Failed to fetch'')
   \<and> ''Failed to fetch'' \<noteq> ''Address not found. Please try a different address format.''
   \<and> notFoundError \<noteq> transportError ''Failed to fetch''"
proof -
  have a: "blank ''   ''" "\<not> blank ''Tokyo''"
    by (simp_all add: blank_def isWhiteSpace_def)
  have b: "''Failed to fetch'' \<noteq> ''Address not found. Please try a different address format.''"
    by simp
  show ?thesis
    using geocodeAddress_failures [of "''   ''" exampleEngine
        "Responded True ''OK'' (Body (JArray []))" "''OK''" "''Failed to fetch''"]
      geocodeAddress_failures [of "''Tokyo''" exampleEngine
        "Responded True ''OK'' (Body (JArray []))" "''OK''" "''Failed to fetch''"] a b
    by blast
qed

lemma spaced_snoc:
  "spaced (ts @ [r]) \<longleftrightarrow> spaced ts \<and> (ts = [] \<or> r - last ts \<ge> MIN_REQUEST_INTERVAL)"
  by (induction ts rule: spaced.induct) auto

lemma run_single:
  assumes "sleeping g = []"
  shows "run [now] g =
     (case sleepNeeded (lastRequestTime g) now of
        None \<Rightarrow> waitForRateLimit_resume now g
      | Some delay \<Rightarrow> waitForRateLimit_resume (now + delay) g)"
proof (cases "sleepNeeded (lastRequestTime g) now")
  case None
  then have "run [now] g = run [] (waitForRateLimit_resume now g)"
    using assms by (subst run.simps) (simp add: waitForRateLimit_enter_def)
  also have "\<dots> = waitForRateLimit_resume now g"
    using assms by (subst run.simps) (simp add: waitForRateLimit_resume_def)
  finally show ?thesis using None by simp
next
  case (Some delay)
  then have "run [now] g = run [] (g\<lparr>sleeping := [now + delay]\<rparr>)"
    using assms by (subst run.simps) (simp add: waitForRateLimit_enter_def)
  also have "\<dots> = run [] (waitForRateLimit_resume (now + delay) (g\<lparr>sleeping := []\<rparr>))"
    by (subst run.simps) simp
  also have "\<dots> = waitForRateLimit_resume (now + delay) (g\<lparr>sleeping := []\<rparr>)"
    by (subst run.simps) (simp add: waitForRateLimit_resume_def)
  also have "g\<lparr>sleeping := []\<rparr> = g" using assms by simp
  finally show ?thesis using Some by simp
qed

lemma settled_run_single:
  assumes "settled g"
  shows "settled (run [now] g)"
proof -
  have s: "sleeping g = []" using assms by (simp add: settled_def)
  show ?thesis
  proof (cases "sleepNeeded (lastRequestTime g) now")
    case None
    then have "now - lastRequestTime g \<ge> MIN_REQUEST_INTERVAL"
      by (simp add: sleepNeeded_def Let_def split: if_splits)
    then show ?thesis
      using assms None
      by (auto simp add: run_single [OF s] settled_def waitForRateLimit_resume_def spaced_snoc)
  next
    case (Some delay)
    then have "now + delay - lastRequestTime g \<ge> MIN_REQUEST_INTERVAL"
      by (auto simp add: sleepNeeded_def Let_def split: if_splits)
    then show ?thesis
      using assms Some
      by (auto simp add: run_single [OF s] settled_def waitForRateLimit_resume_def spaced_snoc)
  qed
qed

lemma sequentially_settled: "settled g \<Longrightarrow> settled (sequentially arrivals g)"
  unfolding sequentially_def
  by (induction arrivals arbitrary: g) (simp_all add: settled_run_single)

text \<open>Callers that come one after the other are always spaced.\<close>

lemma sequential_callers_spaced: "spaced (requests (sequentially arrivals idle))"
proof -
  have "settled idle" by (simp add: settled_def idle_def)
  then have "settled (sequentially arrivals idle)" by (rule sequentially_settled)
  then show ?thesis by (simp add: settled_def)
qed

text \<open>A lone second caller inside the interval is delayed, not rejected.\<close>

lemma second_caller_delayed: "requests (run [5000, 5100] idle) = [5000, 6000]"
  by (simp add: run.simps idle_def waitForRateLimit_enter_def waitForRateLimit_resume_def sleepNeeded_def
      MIN_REQUEST_INTERVAL_def Let_def)

text \<open>
  C8. No two requests are issued within the minimum interval, whatever the concurrency:
  this fails. Two callers that arrive while an earlier request is less than a second old
  both read the same \<open>lastRequestTime\<close>, both sleep until the same instant, and both
  issue their request then. Callers at 5000, 5100 and 5200 ms issue requests at 5000,
  6000 and 6000 ms.
\<close>

theorem rate_limit_three_callers:
  "requests (run [5000, 5100, 5200] idle) = [5000, 6000, 6000]
   \<and> \<not> spaced (requests (run [5000, 5100, 5200] idle))"
proof -
  have r: "requests (run [5000, 5100, 5200] idle) = [5000, 6000, 6000]"
    by (simp add: run.simps idle_def waitForRateLimit_enter_def waitForRateLimit_resume_def sleepNeeded_def
        MIN_REQUEST_INTERVAL_def Let_def)
  show ?thesis
    unfolding r by (simp add: MIN_REQUEST_INTERVAL_def)
qed

end
